theory Spec2Isabelle
  imports Complex_Main
begin

section \<open>JavaScript values\<close>

text \<open>
  Request bodies, vendor results and webhook events are JSON-shaped JavaScript values.
  A number is an IEEE double: every finite double is a rational, so \<open>Fin\<close> over
  \<open>rat\<close> covers them all (and more), and the comparisons with \<open>0\<close> and
  \<open>999999\<close> are exact.
\<close>

datatype jsnum = NaN | Fin rat | PosInf | NegInf

datatype jsval =
    JUndefined
  | JNull
  | JBool bool
  | JNum jsnum
  | JStr string
  | JArr "jsval list"
  | JObj "(string \<times> jsval) list"

text \<open>A thrown \<open>Error\<close> object: the two properties the handlers read from it.\<close>

datatype js_error = JsError (message: string) (code: jsval)

text \<open>
  A \<open>TypeError\<close> raised by the language itself: a property read on \<open>undefined\<close>
  or \<open>null\<close> (the value and the property), the call of a property that is not a
  function, the conversion of an object that has no primitive value. The wording of its
  message belongs to the engine and is not fixed here.
\<close>

datatype type_error =
    CannotRead jsval string
  | NotAFunction string
  | NoPrimitiveValue

text \<open>
  Property read \<open>v.k\<close> (and destructuring \<open>const { k } = v\<close>): it throws on
  \<open>undefined\<close> and \<open>null\<close>, yields \<open>undefined\<close> for an absent key. For the
  property names this program reads, primitives and arrays have no such property.
  The first binding of a key in the list is the object's value for it.
\<close>

fun js_get :: "jsval \<Rightarrow> string \<Rightarrow> type_error + jsval" where
  "js_get JUndefined k = Inl (CannotRead JUndefined k)"
| "js_get JNull k = Inl (CannotRead JNull k)"
| "js_get (JObj kvs) k = Inr (case map_of kvs k of Some v \<Rightarrow> v | None \<Rightarrow> JUndefined)"
| "js_get v k = Inr JUndefined"

text \<open>
  \<open>ToString\<close>, as a template literal applies it. An array joins its elements with
  commas, \<open>undefined\<close> and \<open>null\<close> elements giving the empty string; a plain object
  gives \<open>[object Object]\<close> unless an own \<open>toString\<close> key (never callable in JSON)
  hides the inherited method, in which case the conversion throws. The rendering of a
  number is the engine's and is a parameter.
\<close>

fun to_string :: "(jsnum \<Rightarrow> string) \<Rightarrow> jsval \<Rightarrow> type_error + string"
and join_elements :: "(jsnum \<Rightarrow> string) \<Rightarrow> jsval list \<Rightarrow> type_error + string" where
  "to_string f JUndefined = Inr ''undefined''"
| "to_string f JNull = Inr ''null''"
| "to_string f (JBool b) = Inr (if b then ''true'' else ''false'')"
| "to_string f (JNum n) = Inr (f n)"
| "to_string f (JStr s) = Inr s"
| "to_string f (JArr xs) = join_elements f xs"
| "to_string f (JObj kvs) =
     (if map_of kvs ''toString'' = None then Inr ''[object Object]''
      else Inl NoPrimitiveValue)"
| "join_elements f [] = Inr ''''"
| "join_elements f (x # xs) =
     (case (if x = JUndefined \<or> x = JNull then Inr '''' else to_string f x) of
        Inl e \<Rightarrow> Inl e
      | Inr s \<Rightarrow>
          (if xs = [] then Inr s
           else (case join_elements f xs of
                   Inl e \<Rightarrow> Inl e
                 | Inr r \<Rightarrow> Inr (s @ '','' @ r))))"

text \<open>
  The method call \<open>v.toString()\<close>: unlike \<open>ToString\<close> it throws on
  \<open>undefined\<close> and \<open>null\<close>, and on an object whose own \<open>toString\<close> key
  hides the inherited method.
\<close>

definition call_toString :: "(jsnum \<Rightarrow> string) \<Rightarrow> jsval \<Rightarrow> type_error + string" where
  "call_toString f v =
     (case v of
        JUndefined \<Rightarrow> Inl (CannotRead JUndefined ''toString'')
      | JNull \<Rightarrow> Inl (CannotRead JNull ''toString'')
      | JObj kvs \<Rightarrow>
          (if map_of kvs ''toString'' = None then to_string f v
           else Inl (NotAFunction ''toString''))
      | _ \<Rightarrow> to_string f v)"

text \<open>
  \<open>ToNumber\<close>, as the relational operators apply it to an operand compared with a
  number: an array or object is first converted to a string. Parsing a string as a number
  is the engine's and is a parameter.
\<close>

definition to_number ::
  "(jsnum \<Rightarrow> string) \<Rightarrow> (string \<Rightarrow> jsnum) \<Rightarrow> jsval \<Rightarrow> type_error + jsnum" where
  "to_number f g v =
     (case v of
        JUndefined \<Rightarrow> Inr NaN
      | JNull \<Rightarrow> Inr (Fin 0)
      | JBool b \<Rightarrow> Inr (Fin (if b then 1 else 0))
      | JNum n \<Rightarrow> Inr n
      | JStr s \<Rightarrow> Inr (g s)
      | _ \<Rightarrow> (case to_string f v of Inl e \<Rightarrow> Inl e | Inr s \<Rightarrow> Inr (g s)))"

text \<open>\<open>n <= r\<close> and \<open>n > r\<close> on numbers: every comparison with \<open>NaN\<close> is false.\<close>

fun num_le :: "jsnum \<Rightarrow> rat \<Rightarrow> bool" where
  "num_le NaN r = False"
| "num_le (Fin q) r = (q \<le> r)"
| "num_le PosInf r = False"
| "num_le NegInf r = True"

fun num_gt :: "jsnum \<Rightarrow> rat \<Rightarrow> bool" where
  "num_gt NaN r = False"
| "num_gt (Fin q) r = (r < q)"
| "num_gt PosInf r = True"
| "num_gt NegInf r = False"

section \<open>Requests, responses and recorded effects\<close>

record request =
  body :: jsval
  headers :: "(string \<times> string) list"
  secure :: bool
  user :: jsval

text \<open>
  What \<open>res.json\<close> or \<open>res.send\<close> was given, before serialisation (which drops
  \<open>undefined\<close> properties); \<open>res.json\<close> without \<open>res.status\<close> answers 200.
\<close>

datatype res_body = Json jsval | Send string

record response =
  status :: nat
  payload :: res_body

definition json_response :: "nat \<Rightarrow> jsval \<Rightarrow> response" where
  "json_response st v = \<lparr>status = st, payload = Json v\<rparr>"

text \<open>The outcome of a middleware: it answered, or it called \<open>next()\<close>.\<close>

datatype mw_result = Responded response | Next

text \<open>The validation chains of express-validator, as the middleware declares them.\<close>

datatype validator = IsNumeric | IsString | IsLength nat nat | NotEmpty | IsObject

datatype rule = Body string "(validator \<times> string option) list"

text \<open>
  The two request objects of the PayPal SDK the handlers build: a create request with its
  \<open>Prefer\<close> header and body, a capture request with the order id as written into
  its path.
\<close>

datatype paypal_request =
    OrdersCreateRequest string jsval
  | OrdersCaptureRequest string

datatype log_level = LogError | LogInfo

datatype log_arg = NoArg | ErrorArg js_error | ValueArg jsval

text \<open>
  Every call that leaves the module is recorded, in order: a logger call, the run of a
  validation chain, a vendor SDK call, a call of the order-creation collaborator.
\<close>

datatype event =
    Logged log_level string log_arg
  | RuleRun rule
  | PaymentIntentsCreate jsval
  | PaymentMethodsCreate jsval
  | PayPalExecute paypal_request
  | CreateOrder jsval

text \<open>
  The surroundings of the module: the process environment, what belongs to the engine
  (the two number conversions, the wording of a \<open>TypeError\<close>, the percent-encoding
  of \<open>querystring.escape\<close>, which throws on a malformed string), and the
  collaborators whose code is outside the repository. A collaborator's answer may depend
  on everything recorded so far; \<open>Inl\<close> is a thrown error (a rejected promise).
\<close>

record env =
  NODE_ENV :: "string option"
  FRONTEND_URL :: "string option"
  STRIPE_WEBHOOK_SECRET :: "string option"
  number_to_string :: "jsnum \<Rightarrow> string"
  string_to_number :: "string \<Rightarrow> jsnum"
  type_error_message :: "type_error \<Rightarrow> string"
  querystring_escape :: "string \<Rightarrow> js_error + string"
  run_rule :: "rule \<Rightarrow> request \<Rightarrow> js_error + jsval list"
  protectRoute :: "request \<Rightarrow> response + request"
  constructEvent :: "event list \<Rightarrow> jsval \<Rightarrow> jsval \<Rightarrow> string option \<Rightarrow> js_error + jsval"
  paymentIntents_create :: "event list \<Rightarrow> jsval \<Rightarrow> js_error + jsval"
  paymentMethods_create :: "event list \<Rightarrow> jsval \<Rightarrow> js_error + jsval"
  paypal_execute :: "event list \<Rightarrow> paypal_request \<Rightarrow> js_error + jsval"
  createOrder :: "event list \<Rightarrow> jsval \<Rightarrow> js_error + unit"

text \<open>
  A computation that may throw and that appends to the record of effects. A \<open>try\<close>
  block is \<open>try_catch\<close>; \<open>await\<close> of a call is \<open>bind_io\<close>.
\<close>

type_synonym 'a io = "event list \<Rightarrow> (js_error + 'a) \<times> event list"

definition return_io :: "'a \<Rightarrow> 'a io" where
  "return_io x t = (Inr x, t)"

definition throw_io :: "js_error \<Rightarrow> 'a io" where
  "throw_io e t = (Inl e, t)"

definition lift_io :: "js_error + 'a \<Rightarrow> 'a io" where
  "lift_io r t = (r, t)"

text \<open>
  A \<open>TypeError\<close> of the language, as the \<open>Error\<close> object a \<open>catch\<close> receives:
  its message is the engine's, it has no \<open>code\<close>.
\<close>

definition thrown :: "env \<Rightarrow> type_error \<Rightarrow> js_error" where
  "thrown env te = JsError (type_error_message env te) JUndefined"

definition raise_io :: "env \<Rightarrow> type_error + 'a \<Rightarrow> 'a io" where
  "raise_io env r t = ((case r of Inl te \<Rightarrow> Inl (thrown env te) | Inr x \<Rightarrow> Inr x), t)"

definition bind_io :: "'a io \<Rightarrow> ('a \<Rightarrow> 'b io) \<Rightarrow> 'b io" where
  "bind_io m k t = (case m t of (Inl e, t') \<Rightarrow> (Inl e, t') | (Inr x, t') \<Rightarrow> k x t')"

definition try_catch :: "'a io \<Rightarrow> (js_error \<Rightarrow> 'a io) \<Rightarrow> 'a io" where
  "try_catch m h t = (case m t of (Inl e, t') \<Rightarrow> h e t' | (Inr x, t') \<Rightarrow> (Inr x, t'))"

definition logger :: "log_level \<Rightarrow> string \<Rightarrow> log_arg \<Rightarrow> unit io" where
  "logger lvl msg arg t = (Inr (), t @ [Logged lvl msg arg])"

definition stripe_paymentIntents_create :: "env \<Rightarrow> jsval \<Rightarrow> jsval io" where
  "stripe_paymentIntents_create env params t =
     (paymentIntents_create env t params, t @ [PaymentIntentsCreate params])"

definition stripe_paymentMethods_create :: "env \<Rightarrow> jsval \<Rightarrow> jsval io" where
  "stripe_paymentMethods_create env params t =
     (paymentMethods_create env t params, t @ [PaymentMethodsCreate params])"

definition paypalClient_execute :: "env \<Rightarrow> paypal_request \<Rightarrow> jsval io" where
  "paypalClient_execute env rq t = (paypal_execute env t rq, t @ [PayPalExecute rq])"

definition call_createOrder :: "env \<Rightarrow> jsval \<Rightarrow> unit io" where
  "call_createOrder env args t = (createOrder env t args, t @ [CreateOrder args])"

text \<open>The calls of the order-creation collaborator in a record, with their arguments.\<close>

fun order_calls :: "event list \<Rightarrow> jsval list" where
  "order_calls [] = []"
| "order_calls (CreateOrder a # es) = a # order_calls es"
| "order_calls (e # es) = order_calls es"

text \<open>The runs of validation chains, and the logger calls, in a record.\<close>

fun is_rule_run :: "event \<Rightarrow> bool" where
  "is_rule_run (RuleRun r) = True"
| "is_rule_run e = False"

fun is_log :: "event \<Rightarrow> bool" where
  "is_log (Logged l m a) = True"
| "is_log e = False"

section \<open>The validation middleware (middleware/validatePayment.js)\<close>

definition stripePaymentRules :: "rule list" where
  "stripePaymentRules =
     [Body ''amount'' [(IsNumeric, Some ''Amount must be a number'')],
      Body ''currency'' [(IsString, None), (IsLength 3 3, Some ''Invalid currency code'')],
      Body ''paymentMethodId''
        [(IsString, None), (NotEmpty, Some ''Payment method ID is required'')]]"

definition paypalPaymentRules :: "rule list" where
  "paypalPaymentRules =
     [Body ''amount'' [(IsNumeric, Some ''Amount must be a number'')],
      Body ''currency'' [(IsString, None), (IsLength 3 3, Some ''Invalid currency code'')]]"

definition googlePayPaymentRules :: "rule list" where
  "googlePayPaymentRules =
     [Body ''amount'' [(IsNumeric, Some ''Amount must be a number'')],
      Body ''currency'' [(IsString, None), (IsLength 3 3, Some ''Invalid currency code'')],
      Body ''paymentData'' [(IsObject, Some ''Invalid payment data'')],
      Body ''paymentData.token''
        [(IsString, None), (NotEmpty, Some ''Payment token is required'')]]"

text \<open>The \<open>switch (method)\<close>: strict equality with the three literals, else the default.\<close>

definition select_rules :: "jsval \<Rightarrow> rule list option" where
  "select_rules m =
     (if m = JStr ''card'' then Some stripePaymentRules
      else if m = JStr ''paypal'' then Some paypalPaymentRules
      else if m = JStr ''google_pay'' then Some googlePayPaymentRules
      else None)"

text \<open>
  \<open>await Promise.all(validationRules.map(validation => validation.run(req)))\<close> followed
  by \<open>validationResult(req)\<close>: every chain is started, the errors of all chains are
  collected in order; a chain that throws makes the whole await throw.
\<close>

fun collect_errors :: "(js_error + jsval list) list \<Rightarrow> js_error + jsval list" where
  "collect_errors [] = Inr []"
| "collect_errors (Inl e # rs) = Inl e"
| "collect_errors (Inr es # rs) =
     (case collect_errors rs of Inl e \<Rightarrow> Inl e | Inr es' \<Rightarrow> Inr (es @ es'))"

definition validation_errors :: "env \<Rightarrow> rule list \<Rightarrow> request \<Rightarrow> js_error + jsval list" where
  "validation_errors env rules req = collect_errors (map (\<lambda>r. run_rule env r req) rules)"

definition run_rules :: "env \<Rightarrow> rule list \<Rightarrow> request \<Rightarrow> (jsval list) io" where
  "run_rules env rules req t = (validation_errors env rules req, t @ map RuleRun rules)"

text \<open>\<open>amount <= 0 || amount > 999999\<close>; both operands convert the same value.\<close>

definition amount_out_of_range :: "env \<Rightarrow> jsval \<Rightarrow> type_error + bool" where
  "amount_out_of_range env amount =
     (case to_number (number_to_string env) (string_to_number env) amount of
        Inl e \<Rightarrow> Inl e
      | Inr n \<Rightarrow> Inr (num_le n 0 \<or> num_gt n 999999))"

definition invalid_method_response :: response where
  "invalid_method_response =
     json_response 400 (JObj [(''error'', JObj [(''message'', JStr ''Invalid payment method'')])])"

definition validation_error_response :: "jsval list \<Rightarrow> response" where
  "validation_error_response errors =
     json_response 400
       (JObj [(''error'', JObj [(''message'', JStr ''Validation error''),
                                (''details'', JArr errors)])])"

definition invalid_amount_response :: response where
  "invalid_amount_response =
     json_response 400
       (JObj [(''error'', JObj [(''message'', JStr ''Invalid amount''),
                                (''details'', JStr ''Amount must be between 0 and 999,999'')])])"

definition https_required_response :: response where
  "https_required_response =
     json_response 403
       (JObj [(''error'', JObj [(''message'', JStr ''Payment must be processed over HTTPS'')])])"

text \<open>The body of the \<open>try\<close> block of \<open>validatePayment\<close>.\<close>

definition validate_checks :: "env \<Rightarrow> request \<Rightarrow> mw_result io" where
  "validate_checks env req =
     bind_io (raise_io env (js_get (body req) ''method'')) (\<lambda>method.
       case select_rules method of
         None \<Rightarrow> return_io (Responded invalid_method_response)
       | Some validationRules \<Rightarrow>
           bind_io (run_rules env validationRules req) (\<lambda>errors.
             if errors \<noteq> [] then return_io (Responded (validation_error_response errors))
             else
               bind_io (raise_io env (js_get (body req) ''amount'')) (\<lambda>amount.
               bind_io (raise_io env (amount_out_of_range env amount)) (\<lambda>out_of_range.
                 if out_of_range then return_io (Responded invalid_amount_response)
                 else if \<not> secure req \<and> NODE_ENV env = Some ''production''
                 then return_io (Responded https_required_response)
                 else return_io Next))))"

definition validatePayment :: "env \<Rightarrow> request \<Rightarrow> event list \<Rightarrow> mw_result \<times> event list" where
  "validatePayment env req t =
     (case validate_checks env req t of
        (Inr r, t') \<Rightarrow> (r, t')
      | (Inl error, t') \<Rightarrow>
          (Responded
             (json_response 500
                (JObj [(''error'', JObj [(''message'', JStr ''Payment validation failed''),
                                         (''details'', JStr (message error))])])),
           t' @ [Logged LogError ''Payment validation error:'' (ErrorArg error)]))"

section \<open>The route handlers\<close>

text \<open>An environment variable inside a template literal: \<open>undefined\<close> when unset.\<close>

definition env_string :: "string option \<Rightarrow> string" where
  "env_string v = (case v of None \<Rightarrow> ''undefined'' | Some s \<Rightarrow> s)"

subsection \<open>POST /create-payment-intent\<close>

definition create_payment_intent_try :: "env \<Rightarrow> request \<Rightarrow> response io" where
  "create_payment_intent_try env req =
     bind_io (raise_io env (js_get (body req) ''amount'')) (\<lambda>amount.
     bind_io (raise_io env (js_get (body req) ''currency'')) (\<lambda>currency.
     bind_io (raise_io env (js_get (body req) ''paymentMethodId'')) (\<lambda>paymentMethodId.
     bind_io (stripe_paymentIntents_create env
                (JObj [(''amount'', amount),
                       (''currency'', currency),
                       (''payment_method'', paymentMethodId),
                       (''confirm'', JBool True),
                       (''return_url'',
                          JStr (env_string (FRONTEND_URL env) @ ''/payment/confirm''))]))
       (\<lambda>paymentIntent.
     bind_io (raise_io env (js_get paymentIntent ''client_secret'')) (\<lambda>client_secret.
     bind_io (raise_io env (js_get paymentIntent ''id'')) (\<lambda>intent_id.
       return_io (json_response 200
         (JObj [(''clientSecret'', client_secret), (''paymentIntentId'', intent_id)]))))))))"

definition create_payment_intent ::
  "env \<Rightarrow> request \<Rightarrow> event list \<Rightarrow> response \<times> event list" where
  "create_payment_intent env req t =
     (case create_payment_intent_try env req t of
        (Inr r, t') \<Rightarrow> (r, t')
      | (Inl error, t') \<Rightarrow>
          (json_response 500
             (JObj [(''error'', JObj [(''message'', JStr (message error)),
                                      (''code'', code error)])]),
           t' @ [Logged LogError ''Stripe payment intent error:'' (ErrorArg error)]))"

subsection \<open>POST /create-paypal-order\<close>

definition create_paypal_order_try :: "env \<Rightarrow> request \<Rightarrow> response io" where
  "create_paypal_order_try env req =
     bind_io (raise_io env (js_get (body req) ''amount'')) (\<lambda>amount.
     bind_io (raise_io env (js_get (body req) ''currency'')) (\<lambda>currency.
     bind_io (raise_io env (call_toString (number_to_string env) amount)) (\<lambda>amount_string.
     bind_io (paypalClient_execute env
                (OrdersCreateRequest ''return=representation''
                   (JObj [(''intent'', JStr ''CAPTURE''),
                          (''purchase_units'',
                             JArr [JObj [(''amount'',
                                          JObj [(''currency_code'', currency),
                                                (''value'', JStr amount_string)])]])])))
       (\<lambda>order.
     bind_io (raise_io env (js_get order ''result'')) (\<lambda>result.
     bind_io (raise_io env (js_get result ''id'')) (\<lambda>order_id.
       return_io (json_response 200 (JObj [(''orderId'', order_id)]))))))))"

definition create_paypal_order ::
  "env \<Rightarrow> request \<Rightarrow> event list \<Rightarrow> response \<times> event list" where
  "create_paypal_order env req t =
     (case create_paypal_order_try env req t of
        (Inr r, t') \<Rightarrow> (r, t')
      | (Inl error, t') \<Rightarrow>
          (json_response 500
             (JObj [(''error'', JObj [(''message'', JStr ''Failed to create PayPal order''),
                                      (''details'', JStr (message error))])]),
           t' @ [Logged LogError ''PayPal order creation error:'' (ErrorArg error)]))"

subsection \<open>POST /capture-paypal-payment\<close>

text \<open>
  \<open>new PayPal.orders.OrdersCaptureRequest(orderId)\<close>. The constructor of the SDK
  (outside the repository) writes \<open>querystring.escape(orderId)\<close> into the request
  path: the order id is converted to a string, which throws for an object without a
  primitive value, and the string is percent-encoded.
\<close>

definition new_OrdersCaptureRequest :: "env \<Rightarrow> jsval \<Rightarrow> js_error + paypal_request" where
  "new_OrdersCaptureRequest env orderId =
     (case to_string (number_to_string env) orderId of
        Inl te \<Rightarrow> Inl (thrown env te)
      | Inr id_string \<Rightarrow>
          (case querystring_escape env id_string of
             Inl e \<Rightarrow> Inl e
           | Inr escaped \<Rightarrow> Inr (OrdersCaptureRequest escaped)))"

definition capture_paypal_payment_try :: "env \<Rightarrow> request \<Rightarrow> response io" where
  "capture_paypal_payment_try env req =
     bind_io (raise_io env (js_get (body req) ''orderId'')) (\<lambda>orderId.
     bind_io (lift_io (new_OrdersCaptureRequest env orderId)) (\<lambda>request.
     bind_io (paypalClient_execute env request) (\<lambda>capture.
     bind_io (raise_io env (js_get capture ''result'')) (\<lambda>result.
     bind_io (raise_io env (js_get result ''status'')) (\<lambda>capture_status.
       if capture_status = JStr ''COMPLETED'' then
         bind_io (raise_io env (js_get (user req) ''id'')) (\<lambda>user_id.
         bind_io (call_createOrder env
                    (JObj [(''userId'', user_id),
                           (''paymentId'', orderId),
                           (''paymentMethod'', JStr ''paypal''),
                           (''status'', JStr ''confirmed'')]))
           (\<lambda>_.
         bind_io (raise_io env (js_get result ''id'')) (\<lambda>capture_id.
           return_io (json_response 200
             (JObj [(''success'', JBool True), (''captureId'', capture_id)])))))
       else throw_io (JsError ''Payment not completed'' JUndefined))))))"

definition capture_paypal_payment ::
  "env \<Rightarrow> request \<Rightarrow> event list \<Rightarrow> response \<times> event list" where
  "capture_paypal_payment env req t =
     (case capture_paypal_payment_try env req t of
        (Inr r, t') \<Rightarrow> (r, t')
      | (Inl error, t') \<Rightarrow>
          (json_response 500
             (JObj [(''error'', JObj [(''message'', JStr ''Failed to capture PayPal payment''),
                                      (''details'', JStr (message error))])]),
           t' @ [Logged LogError ''PayPal payment capture error:'' (ErrorArg error)]))"

subsection \<open>POST /create-google-pay-payment\<close>

definition create_google_pay_payment_try :: "env \<Rightarrow> request \<Rightarrow> response io" where
  "create_google_pay_payment_try env req =
     bind_io (raise_io env (js_get (body req) ''amount'')) (\<lambda>amount.
     bind_io (raise_io env (js_get (body req) ''currency'')) (\<lambda>currency.
     bind_io (raise_io env (js_get (body req) ''paymentData'')) (\<lambda>paymentData.
     bind_io (raise_io env (js_get paymentData ''token'')) (\<lambda>token.
     bind_io (stripe_paymentMethods_create env
                (JObj [(''type'', JStr ''card''), (''card'', JObj [(''token'', token)])]))
       (\<lambda>paymentMethod.
     bind_io (raise_io env (js_get paymentMethod ''id'')) (\<lambda>payment_method_id.
     bind_io (stripe_paymentIntents_create env
                (JObj [(''amount'', amount),
                       (''currency'', currency),
                       (''payment_method'', payment_method_id),
                       (''confirm'', JBool True),
                       (''return_url'',
                          JStr (env_string (FRONTEND_URL env) @ ''/payment/confirm''))]))
       (\<lambda>paymentIntent.
     bind_io (raise_io env (js_get paymentIntent ''id'')) (\<lambda>intent_id.
       return_io (json_response 200
         (JObj [(''success'', JBool True), (''paymentIntentId'', intent_id)]))))))))))"

definition create_google_pay_payment ::
  "env \<Rightarrow> request \<Rightarrow> event list \<Rightarrow> response \<times> event list" where
  "create_google_pay_payment env req t =
     (case create_google_pay_payment_try env req t of
        (Inr r, t') \<Rightarrow> (r, t')
      | (Inl error, t') \<Rightarrow>
          (json_response 500
             (JObj [(''error'',
                     JObj [(''message'', JStr ''Failed to process Google Pay payment''),
                           (''details'', JStr (message error))])]),
           t' @ [Logged LogError ''Google Pay payment error:'' (ErrorArg error)]))"

subsection \<open>POST /webhook\<close>

definition handleSuccessfulPayment :: "env \<Rightarrow> jsval \<Rightarrow> unit io" where
  "handleSuccessfulPayment env paymentIntent =
     try_catch
       (bind_io (raise_io env (js_get paymentIntent ''metadata'')) (\<lambda>metadata.
        bind_io (raise_io env (js_get metadata ''userId'')) (\<lambda>userId.
        bind_io (raise_io env (js_get paymentIntent ''id'')) (\<lambda>intent_id.
          call_createOrder env
            (JObj [(''userId'', userId),
                   (''paymentId'', intent_id),
                   (''paymentMethod'', JStr ''card''),
                   (''status'', JStr ''confirmed'')])))))
       (\<lambda>error.
          bind_io (logger LogError ''Error handling successful payment:'' (ErrorArg error))
            (\<lambda>_. throw_io error))"

definition handleFailedPayment :: "env \<Rightarrow> jsval \<Rightarrow> unit io" where
  "handleFailedPayment env paymentIntent =
     try_catch
       (bind_io (raise_io env (js_get paymentIntent ''id'')) (\<lambda>intent_id.
        bind_io (raise_io env (js_get paymentIntent ''last_payment_error'')) (\<lambda>last_error.
          logger LogError ''Payment failed:''
            (ValueArg (JObj [(''paymentIntentId'', intent_id), (''error'', last_error)])))))
       (\<lambda>error.
          bind_io (logger LogError ''Error handling failed payment:'' (ErrorArg error))
            (\<lambda>_. throw_io error))"

text \<open>The \<open>switch (event.type)\<close> of the second \<open>try\<close> block: the dispatch step.\<close>

definition dispatch :: "env \<Rightarrow> jsval \<Rightarrow> unit io" where
  "dispatch env event =
     bind_io (raise_io env (js_get event ''type'')) (\<lambda>event_type.
       if event_type = JStr ''payment_intent.succeeded'' then
         bind_io (raise_io env (js_get event ''data'')) (\<lambda>data.
         bind_io (raise_io env (js_get data ''object'')) (\<lambda>paymentIntent.
           handleSuccessfulPayment env paymentIntent))
       else if event_type = JStr ''payment_intent.payment_failed'' then
         bind_io (raise_io env (js_get event ''data'')) (\<lambda>data.
         bind_io (raise_io env (js_get data ''object'')) (\<lambda>failedPayment.
           handleFailedPayment env failedPayment))
       else
         bind_io (raise_io env (to_string (number_to_string env) event_type)) (\<lambda>type_string.
           logger LogInfo (''Unhandled event type '' @ type_string) NoArg))"

definition header_value :: "request \<Rightarrow> string \<Rightarrow> jsval" where
  "header_value req name =
     (case map_of (headers req) name of None \<Rightarrow> JUndefined | Some v \<Rightarrow> JStr v)"

definition received_response :: response where
  "received_response = json_response 200 (JObj [(''received'', JBool True)])"

definition processing_failed_response :: response where
  "processing_failed_response =
     json_response 500 (JObj [(''error'', JStr ''Webhook processing failed'')])"

definition webhook :: "env \<Rightarrow> request \<Rightarrow> event list \<Rightarrow> response \<times> event list" where
  "webhook env req t =
     (case constructEvent env t (body req) (header_value req ''stripe-signature'')
             (STRIPE_WEBHOOK_SECRET env) of
        Inl err \<Rightarrow>
          (\<lparr>status = 400, payload = Send (''Webhook Error: '' @ message err)\<rparr>,
           t @ [Logged LogError ''Webhook signature verification failed:'' (ErrorArg err)])
      | Inr event \<Rightarrow>
          (case dispatch env event t of
             (Inr u, t') \<Rightarrow> (received_response, t')
           | (Inl error, t') \<Rightarrow>
               (processing_failed_response,
                t' @ [Logged LogError ''Webhook processing error:'' (ErrorArg error)])))"

section \<open>The router: which middleware each route mounts\<close>

text \<open>
  \<open>protectRoute\<close> either answers itself or passes a request on;
  \<open>validatePayment\<close> is mounted on three of the four payment routes.
\<close>

definition validated ::
  "env \<Rightarrow> (env \<Rightarrow> request \<Rightarrow> event list \<Rightarrow> response \<times> event list) \<Rightarrow>
   request \<Rightarrow> event list \<Rightarrow> response \<times> event list" where
  "validated env handler req t =
     (case validatePayment env req t of
        (Responded r, t') \<Rightarrow> (r, t')
      | (Next, t') \<Rightarrow> handler env req t')"

definition protected ::
  "env \<Rightarrow> (request \<Rightarrow> event list \<Rightarrow> response \<times> event list) \<Rightarrow>
   request \<Rightarrow> event list \<Rightarrow> response \<times> event list" where
  "protected env rest req t =
     (case protectRoute env req of
        Inl r \<Rightarrow> (r, t)
      | Inr req' \<Rightarrow> rest req' t)"

definition route_create_payment_intent ::
  "env \<Rightarrow> request \<Rightarrow> event list \<Rightarrow> response \<times> event list" where
  "route_create_payment_intent env = protected env (validated env create_payment_intent)"

definition route_create_paypal_order ::
  "env \<Rightarrow> request \<Rightarrow> event list \<Rightarrow> response \<times> event list" where
  "route_create_paypal_order env = protected env (validated env create_paypal_order)"


definition route_create_google_pay_payment ::
  "env \<Rightarrow> request \<Rightarrow> event list \<Rightarrow> response \<times> event list" where
  "route_create_google_pay_payment env = protected env (validated env create_google_pay_payment)"

definition route_webhook ::
  "env \<Rightarrow> request \<Rightarrow> event list \<Rightarrow> response \<times> event list" where
  "route_webhook env = webhook env"

text \<open>The status a middleware answered with, if it answered.\<close>

fun answered_status :: "mw_result \<Rightarrow> nat option" where
  "answered_status (Responded r) = Some (status r)"
| "answered_status Next = None"

section \<open>Sample surroundings and requests\<close>

text \<open>
  Concrete surroundings on which the theorems below are instantiated. The two number
  conversions agree with the engine on integers (below \<open>10^21\<close>) and are used on
  integers only; a number with a fractional part is shown as a fraction.
\<close>

fun digits :: "nat \<Rightarrow> string" where
  "digits n =
     (if n < 10 then [''0123456789'' ! n]
      else digits (n div 10) @ [''0123456789'' ! (n mod 10)])"

definition render_number :: "jsnum \<Rightarrow> string" where
  "render_number n =
     (case n of
        NaN \<Rightarrow> ''NaN''
      | PosInf \<Rightarrow> ''Infinity''
      | NegInf \<Rightarrow> ''-Infinity''
      | Fin q \<Rightarrow>
          (let (a, b) = quotient_of q;
               whole = (if a < 0 then ''-'' @ digits (nat (- a)) else digits (nat a))
           in if b = 1 then whole else whole @ ''/'' @ digits (nat b)))"

fun digit_value :: "char \<Rightarrow> nat option" where
  "digit_value c = map_of (zip ''0123456789'' [0, 1, 2, 3, 4, 5, 6, 7, 8, 9]) c"

fun parse_digits :: "nat \<Rightarrow> string \<Rightarrow> nat option" where
  "parse_digits acc [] = Some acc"
| "parse_digits acc (c # cs) =
     (case digit_value c of None \<Rightarrow> None | Some d \<Rightarrow> parse_digits (10 * acc + d) cs)"

definition parse_number :: "string \<Rightarrow> jsnum" where
  "parse_number s =
     (if s = [] then Fin 0
      else if hd s = CHR ''-'' \<and> tl s \<noteq> []
      then (case parse_digits 0 (tl s) of None \<Rightarrow> NaN | Some n \<Rightarrow> Fin (- of_nat n))
      else (case parse_digits 0 s of None \<Rightarrow> NaN | Some n \<Rightarrow> Fin (of_nat n)))"

text \<open>
  A wording for the language's \<open>TypeError\<close>s (the engine's own depends on its
  version), and the percent-encoding of a string of ASCII characters.
\<close>

fun sample_wording :: "type_error \<Rightarrow> string" where
  "sample_wording (CannotRead v k) =
     ''Cannot read properties of '' @ (if v = JNull then ''null'' else ''undefined'')
       @ '' (reading '' @ k @ '')''"
| "sample_wording (NotAFunction k) = k @ '' is not a function''"
| "sample_wording NoPrimitiveValue = ''Cannot convert object to primitive value''"

definition unreserved :: "char \<Rightarrow> bool" where
  "unreserved c \<longleftrightarrow>
     c \<in> set ''ABCDEFGHIJKLMNOPQRSTUVWXYZabcdefghijklmnopqrstuvwxyz0123456789-_.!~*()''
     \<or> c = CHR 0x27"

fun percent_encode :: "string \<Rightarrow> string" where
  "percent_encode [] = []"
| "percent_encode (c # cs) =
     (if unreserved c then [c]
      else [CHR ''%'', ''0123456789ABCDEF'' ! (of_char c div 16),
            ''0123456789ABCDEF'' ! (of_char c mod 16)])
     @ percent_encode cs"

text \<open>
  A run of the validation chains that reports the fields a request lacks, one error per
  validator of the chain, and accepts every field that is present.
\<close>

fun split_dots :: "string \<Rightarrow> string list" where
  "split_dots [] = [[]]"
| "split_dots (c # cs) =
     (if c = CHR ''.'' then [] # split_dots cs
      else (case split_dots cs of [] \<Rightarrow> [[c]] | w # ws \<Rightarrow> (c # w) # ws))"

fun lookup_path :: "jsval \<Rightarrow> string list \<Rightarrow> jsval" where
  "lookup_path v [] = v"
| "lookup_path v (k # ks) =
     (case js_get v k of Inl e \<Rightarrow> JUndefined | Inr w \<Rightarrow> lookup_path w ks)"

fun report_absent_fields :: "rule \<Rightarrow> request \<Rightarrow> js_error + jsval list" where
  "report_absent_fields (Body field chain) req =
     Inr (if lookup_path (body req) (split_dots field) = JUndefined
          then map (\<lambda>(v, msg).
                 JObj [(''msg'', JStr (case msg of None \<Rightarrow> ''Invalid value'' | Some m \<Rightarrow> m)),
                       (''param'', JStr field),
                       (''location'', JStr ''body'')]) chain
          else [])"

text \<open>
  An authentication that takes the caller's id from the \<open>authorization\<close> header, a
  signature check that accepts the signature \<open>good\<close> and yields the payload as the
  event, vendors that accept every call, and an order store that refuses an order it
  has already been given.
\<close>

definition sample_env :: env where
  "sample_env =
     \<lparr>NODE_ENV = Some ''production'',
      FRONTEND_URL = Some ''https://shop.example'',
      STRIPE_WEBHOOK_SECRET = Some ''whsec_sample'',
      number_to_string = render_number,
      string_to_number = parse_number,
      type_error_message = sample_wording,
      querystring_escape = (\<lambda>s. Inr (percent_encode s)),
      run_rule = report_absent_fields,
      protectRoute = (\<lambda>req.
        case map_of (headers req) ''authorization'' of
          None \<Rightarrow> Inl (json_response 401 (JObj [(''message'', JStr ''Not authorized'')]))
        | Some caller \<Rightarrow> Inr (req\<lparr>user := JObj [(''id'', JStr caller)]\<rparr>)),
      constructEvent = (\<lambda>t raw sig secret.
        if sig = JStr ''good'' then Inr raw
        else Inl (JsError ''No signatures found matching the expected signature for payload''
                    JUndefined)),
      paymentIntents_create = (\<lambda>t params.
        Inr (JObj [(''id'', JStr ''pi_1''), (''client_secret'', JStr ''pi_1_secret'')])),
      paymentMethods_create = (\<lambda>t params. Inr (JObj [(''id'', JStr ''pm_1'')])),
      paypal_execute = (\<lambda>t rq.
        case rq of
          OrdersCreateRequest prefer request_body \<Rightarrow>
            Inr (JObj [(''result'', JObj [(''id'', JStr ''ORDER-1''),
                                          (''status'', JStr ''CREATED'')])])
        | OrdersCaptureRequest order_id \<Rightarrow>
            Inr (JObj [(''result'', JObj [(''id'', JStr ''CAPTURE-1''),
                                          (''status'', JStr ''COMPLETED'')])])),
      createOrder = (\<lambda>t args.
        if CreateOrder args \<in> set t then Inl (JsError ''Order already exists'' JUndefined)
        else Inr ())\<rparr>"

definition card_request :: request where
  "card_request =
     \<lparr>body = JObj [(''method'', JStr ''card''),
                   (''amount'', JNum (Fin 2500)),
                   (''currency'', JStr ''usd''),
                   (''paymentMethodId'', JStr ''pm_card_visa'')],
      headers = [(''authorization'', ''user-7'')],
      secure = True,
      user = JUndefined\<rparr>"

definition paypal_order_request :: request where
  "paypal_order_request =
     \<lparr>body = JObj [(''method'', JStr ''paypal''),
                   (''amount'', JNum (Fin 25)),
                   (''currency'', JStr ''EUR'')],
      headers = [(''authorization'', ''user-7'')],
      secure = True,
      user = JUndefined\<rparr>"

definition capture_request :: request where
  "capture_request =
     \<lparr>body = JObj [(''orderId'', JStr ''ORDER-1'')],
      headers = [(''authorization'', ''user-7'')],
      secure = True,
      user = JObj [(''id'', JStr ''user-7'')]\<rparr>"

definition succeeded_event :: jsval where
  "succeeded_event =
     JObj [(''type'', JStr ''payment_intent.succeeded''),
           (''data'', JObj [(''object'',
              JObj [(''id'', JStr ''pi_1''),
                    (''metadata'', JObj [(''userId'', JStr ''user-7'')])])])]"

definition webhook_request :: "jsval \<Rightarrow> string \<Rightarrow> request" where
  "webhook_request event signature =
     \<lparr>body = event,
      headers = [(''stripe-signature'', signature)],
      secure = True,
      user = JUndefined\<rparr>"

definition failed_event :: jsval where
  "failed_event =
     JObj [(''type'', JStr ''payment_intent.payment_failed''),
           (''data'', JObj [(''object'',
              JObj [(''id'', JStr ''pi_2''),
                    (''last_payment_error'', JObj [(''code'', JStr ''card_declined'')]),
                    (''metadata'', JObj [(''userId'', JStr ''user-7'')])])])]"

definition refunded_event :: jsval where
  "refunded_event =
     JObj [(''type'', JStr ''charge.refunded''),
           (''data'', JObj [(''object'', JObj [(''id'', JStr ''ch_1'')])])]"

text \<open>Surroundings in which one collaborator fails.\<close>

definition failing_store_env :: env where
  "failing_store_env =
     sample_env\<lparr>createOrder := (\<lambda>t args. Inl (JsError ''Order store unavailable'' JUndefined))\<rparr>"

definition declining_env :: env where
  "declining_env =
     sample_env\<lparr>paymentIntents_create :=
       (\<lambda>t params. Inl (JsError ''Your card was declined.'' (JStr ''card_declined'')))\<rparr>"

definition paypal_down_env :: env where
  "paypal_down_env =
     sample_env\<lparr>paypal_execute :=
       (\<lambda>t rq. Inl (JsError ''Service Unavailable'' JUndefined))\<rparr>"

definition pending_capture_env :: env where
  "pending_capture_env =
     sample_env\<lparr>paypal_execute :=
       (\<lambda>t rq. Inr (JObj [(''result'', JObj [(''id'', JStr ''CAPTURE-2''),
                                              (''status'', JStr ''PENDING'')])]))\<rparr>"

text \<open>Requests over an insecure connection, and requests that validation refuses.\<close>

definition insecure_card_request :: request where
  "insecure_card_request = card_request\<lparr>secure := False\<rparr>"

definition insecure_unknown_method_request :: request where
  "insecure_unknown_method_request =
     \<lparr>body = JObj [(''method'', JStr ''bitcoin''),
                   (''amount'', JNum (Fin 2500)),
                   (''currency'', JStr ''usd'')],
      headers = [(''authorization'', ''user-7'')],
      secure = False,
      user = JUndefined\<rparr>"

definition insecure_incomplete_request :: request where
  "insecure_incomplete_request =
     \<lparr>body = JObj [(''method'', JStr ''paypal''),
                   (''amount'', JNum (Fin 25))],
      headers = [(''authorization'', ''user-7'')],
      secure = False,
      user = JUndefined\<rparr>"

definition unknown_method_request :: request where
  "unknown_method_request =
     \<lparr>body = JObj [(''method'', JStr ''bitcoin''),
                   (''amount'', JNum (Fin 2500)),
                   (''currency'', JStr ''usd'')],
      headers = [(''authorization'', ''user-7'')],
      secure = True,
      user = JUndefined\<rparr>"

definition zero_amount_request :: request where
  "zero_amount_request =
     \<lparr>body = JObj [(''method'', JStr ''paypal''),
                   (''amount'', JNum (Fin 0)),
                   (''currency'', JStr ''EUR'')],
      headers = [(''authorization'', ''user-7'')],
      secure = True,
      user = JUndefined\<rparr>"

definition excessive_amount_request :: request where
  "excessive_amount_request =
     \<lparr>body = JObj [(''method'', JStr ''card''),
                   (''amount'', JStr ''1000000''),
                   (''currency'', JStr ''usd''),
                   (''paymentMethodId'', JStr ''pm_card_visa'')],
      headers = [(''authorization'', ''user-7'')],
      secure = True,
      user = JUndefined\<rparr>"



section \<open>Auxiliary facts\<close>

declare digits.simps [simp del]

lemmas io_defs = return_io_def throw_io_def lift_io_def raise_io_def bind_io_def try_catch_def
  logger_def
  stripe_paymentIntents_create_def stripe_paymentMethods_create_def paypalClient_execute_def
  call_createOrder_def

lemma sample_fields [simp]:
  "NODE_ENV sample_env = Some ''production''"
  "FRONTEND_URL sample_env = Some ''https://shop.example''"
  "STRIPE_WEBHOOK_SECRET sample_env = Some ''whsec_sample''"
  "number_to_string sample_env = render_number"
  "string_to_number sample_env = parse_number"
  "type_error_message sample_env = sample_wording"
  "querystring_escape sample_env = (\<lambda>s. Inr (percent_encode s))"
  "run_rule sample_env = report_absent_fields"
  by (simp_all add: sample_env_def)

lemma order_calls_append: "order_calls (xs @ ys) = order_calls xs @ order_calls ys"
  by (induction xs rule: order_calls.induct) simp_all

lemma order_calls_ignore_logs:
  "order_calls zs = order_calls (filter (\<lambda>e. \<not> is_log e) zs)"
  by (induction zs rule: order_calls.induct) simp_all

lemma order_calls_same_effects:
  assumes "filter (\<lambda>e. \<not> is_log e) xs = filter (\<lambda>e. \<not> is_log e) ys"
  shows "order_calls xs = order_calls ys"
  using assms order_calls_ignore_logs by metis

lemma collect_errors_no_throw:
  "\<forall>r \<in> set rs. \<not> isl r \<Longrightarrow> \<exists>errors. collect_errors rs = Inr errors"
proof (induction rs)
  case Nil
  then show ?case by simp
next
  case (Cons r rs)
  then obtain es where "collect_errors rs = Inr es" by auto
  moreover from Cons.prems obtain e where "r = Inr e" by (cases r) auto
  ultimately show ?case by simp
qed

lemma response_statuses:
  "status invalid_method_response = 400"
  "status (validation_error_response errors) = 400"
  "status invalid_amount_response = 400"
  "status https_required_response = 403"
  by (simp_all add: invalid_method_response_def validation_error_response_def
      invalid_amount_response_def https_required_response_def json_response_def)

text \<open>On a number the amount check is the arithmetic comparison.\<close>

lemma amount_out_of_range_number:
  "amount_out_of_range env (JNum (Fin q)) = Inr (q \<le> 0 \<or> 999999 < q)"
  by (simp add: amount_out_of_range_def to_number_def)

subsection \<open>The middleware, branch by branch\<close>

lemma validate_checks_unknown:
  assumes "js_get (body req) ''method'' = Inr m" and "select_rules m = None"
  shows "validate_checks env req t = (Inr (Responded invalid_method_response), t)"
  using assms by (simp add: validate_checks_def io_defs)

lemma validate_checks_known:
  assumes "js_get (body req) ''method'' = Inr m"
      and "select_rules m = Some rules"
      and "js_get (body req) ''amount'' = Inr amount"
  shows "validate_checks env req t =
           (case validation_errors env rules req of
              Inl e \<Rightarrow> Inl e
            | Inr errors \<Rightarrow>
                if errors \<noteq> [] then Inr (Responded (validation_error_response errors))
                else (case amount_out_of_range env amount of
                        Inl te \<Rightarrow> Inl (thrown env te)
                      | Inr out_of_range \<Rightarrow>
                          if out_of_range then Inr (Responded invalid_amount_response)
                          else if \<not> secure req \<and> NODE_ENV env = Some ''production''
                          then Inr (Responded https_required_response)
                          else Inr Next),
            t @ map RuleRun rules)"
  using assms
  by (simp add: validate_checks_def run_rules_def io_defs split: sum.splits)

lemma validatePayment_unknown:
  assumes "js_get (body req) ''method'' = Inr m" and "select_rules m = None"
  shows "validatePayment env req t = (Responded invalid_method_response, t)"
  using assms by (simp add: validatePayment_def validate_checks_unknown)

subsection \<open>The capture handler, branch by branch\<close>

lemma capture_not_built:
  assumes "js_get (body req) ''orderId'' = Inr orderId"
      and "new_OrdersCaptureRequest env orderId = Inl e"
  shows "capture_paypal_payment_try env req t = (Inl e, t)"
  using assms by (simp add: capture_paypal_payment_try_def io_defs)

lemma capture_completed:
  assumes "js_get (body req) ''orderId'' = Inr orderId"
      and "new_OrdersCaptureRequest env orderId = Inr rq"
      and "paypal_execute env t rq = Inr capture"
      and "js_get capture ''result'' = Inr result"
      and "js_get result ''status'' = Inr (JStr ''COMPLETED'')"
      and "js_get result ''id'' = Inr capture_id"
      and "js_get (user req) ''id'' = Inr user_id"
      and "args = JObj [(''userId'', user_id), (''paymentId'', orderId),
                        (''paymentMethod'', JStr ''paypal''), (''status'', JStr ''confirmed'')]"
      and "t1 = t @ [PayPalExecute rq]"
  shows "capture_paypal_payment_try env req t =
           (case createOrder env t1 args of
              Inl e \<Rightarrow> Inl e
            | Inr u \<Rightarrow> Inr (json_response 200
                       (JObj [(''success'', JBool True), (''captureId'', capture_id)])),
            t1 @ [CreateOrder args])"
  using assms
  by (simp add: capture_paypal_payment_try_def io_defs split: sum.splits)

lemma capture_not_completed:
  assumes "js_get (body req) ''orderId'' = Inr orderId"
      and "new_OrdersCaptureRequest env orderId = Inr rq"
      and "paypal_execute env t rq = Inr capture"
      and "js_get capture ''result'' = Inr result"
      and "js_get result ''status'' = Inr st"
      and "st \<noteq> JStr ''COMPLETED''"
  shows "capture_paypal_payment_try env req t =
           (Inl (JsError ''Payment not completed'' JUndefined), t @ [PayPalExecute rq])"
  using assms
  by (simp add: capture_paypal_payment_try_def io_defs split: sum.splits)

lemma capture_try_after_execute:
  assumes "js_get (body req) ''orderId'' = Inr orderId"
      and "new_OrdersCaptureRequest env orderId = Inr rq"
  shows "\<exists>rest. snd (capture_paypal_payment_try env req t) = t @ PayPalExecute rq # rest
          \<and> filter is_rule_run rest = []
          \<and> (case fst (capture_paypal_payment_try env req t) of
                Inl e \<Rightarrow> True | Inr r \<Rightarrow> status r = 200)"
  using assms
  by (auto simp add: capture_paypal_payment_try_def io_defs json_response_def
      split: sum.splits)



lemma capture_status:
  "status (fst (capture_paypal_payment env req t)) = 200
   \<or> status (fst (capture_paypal_payment env req t)) = 500"
proof (cases "capture_paypal_payment_try env req t")
  case (Pair r t')
  show ?thesis
  proof (cases r)
    case (Inl e)
    then show ?thesis
      using Pair by (simp add: capture_paypal_payment_def json_response_def)
  next
    case (Inr answer)
    have "status answer = 200"
    proof (cases "js_get (body req) ''orderId''")
      case (Inl te)
      then show ?thesis
        using Pair Inr by (simp add: capture_paypal_payment_try_def io_defs)
    next
      case read: (Inr orderId)
      show ?thesis
      proof (cases "new_OrdersCaptureRequest env orderId")
        case (Inl e)
        then show ?thesis
          using capture_not_built [OF read, where env = env and t = t] Pair Inr by simp
      next
        case built: (Inr rq)
        show ?thesis
          using capture_try_after_execute [OF read built, where t = t] Pair Inr by auto
      qed
    qed
    then show ?thesis
      using Pair Inr by (simp add: capture_paypal_payment_def)
  qed
qed


subsection \<open>The webhook handler, branch by branch\<close>

lemma webhook_verified:
  assumes "constructEvent env t (body req) (header_value req ''stripe-signature'')
             (STRIPE_WEBHOOK_SECRET env) = Inr ev"
  shows "webhook env req t =
           (case dispatch env ev t of
              (Inr u, t') \<Rightarrow> (received_response, t')
            | (Inl error, t') \<Rightarrow>
                (processing_failed_response,
                 t' @ [Logged LogError ''Webhook processing error:'' (ErrorArg error)]))"
  using assms by (simp add: webhook_def)

lemma dispatch_succeeded:
  assumes "js_get ev ''type'' = Inr (JStr ''payment_intent.succeeded'')"
      and "js_get ev ''data'' = Inr d"
      and "js_get d ''object'' = Inr intent"
      and "js_get intent ''metadata'' = Inr md"
      and "js_get md ''userId'' = Inr user_id"
      and "js_get intent ''id'' = Inr intent_id"
      and "args = JObj [(''userId'', user_id), (''paymentId'', intent_id),
                        (''paymentMethod'', JStr ''card''), (''status'', JStr ''confirmed'')]"
  shows "dispatch env ev t =
           (case createOrder env t args of
              Inl e \<Rightarrow>
                (Inl e, t @ [CreateOrder args,
                             Logged LogError ''Error handling successful payment:'' (ErrorArg e)])
            | Inr u \<Rightarrow> (Inr (), t @ [CreateOrder args]))"
  using assms
  by (simp add: dispatch_def handleSuccessfulPayment_def io_defs split: sum.splits)

lemma webhook_succeeded_order_calls:
  assumes "constructEvent env t (body req) (header_value req ''stripe-signature'')
             (STRIPE_WEBHOOK_SECRET env) = Inr ev"
      and "js_get ev ''type'' = Inr (JStr ''payment_intent.succeeded'')"
      and "js_get ev ''data'' = Inr d"
      and "js_get d ''object'' = Inr intent"
      and "js_get intent ''metadata'' = Inr md"
      and "js_get md ''userId'' = Inr user_id"
      and "js_get intent ''id'' = Inr intent_id"
      and "args = JObj [(''userId'', user_id), (''paymentId'', intent_id),
                        (''paymentMethod'', JStr ''card''), (''status'', JStr ''confirmed'')]"
  shows "order_calls (snd (webhook env req t)) = order_calls t @ [args]"
  using dispatch_succeeded [OF assms(2-8), of env t]
  by (simp add: webhook_verified [OF assms(1)] order_calls_append split: sum.splits)

lemma dispatch_failed_only_logs:
  assumes "js_get ev ''type'' = Inr (JStr ''payment_intent.payment_failed'')"
  shows "filter (\<lambda>e. \<not> is_log e) (snd (dispatch env ev t)) = filter (\<lambda>e. \<not> is_log e) t"
  using assms
  by (simp add: dispatch_def handleFailedPayment_def io_defs split: sum.splits)

lemma dispatch_failed:
  assumes "js_get ev ''type'' = Inr (JStr ''payment_intent.payment_failed'')"
      and "js_get ev ''data'' = Inr d"
      and "js_get d ''object'' = Inr intent"
      and "js_get intent ''id'' = Inr intent_id"
      and "js_get intent ''last_payment_error'' = Inr last_error"
  shows "dispatch env ev t =
           (Inr (), t @ [Logged LogError ''Payment failed:''
                           (ValueArg (JObj [(''paymentIntentId'', intent_id),
                                            (''error'', last_error)]))])"
  using assms
  by (simp add: dispatch_def handleFailedPayment_def io_defs split: sum.splits)

lemma dispatch_other:
  assumes "js_get ev ''type'' = Inr ty"
      and "ty \<noteq> JStr ''payment_intent.succeeded''"
      and "ty \<noteq> JStr ''payment_intent.payment_failed''"
      and "to_string (number_to_string env) ty = Inr s"
  shows "dispatch env ev t = (Inr (), t @ [Logged LogInfo (''Unhandled event type '' @ s) NoArg])"
  using assms
  by (simp add: dispatch_def io_defs split: sum.splits)

lemma dispatch_succeeded_unreadable:
  assumes "js_get ev ''type'' = Inr (JStr ''payment_intent.succeeded'')"
      and "js_get ev ''data'' = Inr d"
      and "js_get d ''object'' = Inr intent"
      and "js_get intent ''metadata'' = Inl te"
  shows "dispatch env ev t =
           (Inl (thrown env te),
            t @ [Logged LogError ''Error handling successful payment:''
                   (ErrorArg (thrown env te))])"
  using assms
  by (simp add: dispatch_def handleSuccessfulPayment_def io_defs split: sum.splits)

lemma dispatch_failed_unreadable:
  assumes "js_get ev ''type'' = Inr (JStr ''payment_intent.payment_failed'')"
      and "js_get ev ''data'' = Inr d"
      and "js_get d ''object'' = Inr intent"
      and "js_get intent ''id'' = Inl te"
  shows "dispatch env ev t =
           (Inl (thrown env te),
            t @ [Logged LogError ''Error handling failed payment:''
                   (ErrorArg (thrown env te))])"
  using assms
  by (simp add: dispatch_def handleFailedPayment_def io_defs split: sum.splits)

section \<open>The claims\<close>

subsection \<open>Webhook: signature verification\<close>

text \<open>
  C1. A webhook request whose signature verification fails (\<open>constructEvent\<close> throws,
  for a bad signature as for a malformed payload) is answered with status 400 and the
  text \<open>Webhook Error: \<close> followed by the error's message. The only effect recorded is
  the log entry of the failure: the dispatch step is not reached and the order-creation
  collaborator is called zero times.
\<close>

theorem webhook_rejects_unverified:
  assumes "constructEvent env t (body req) (header_value req ''stripe-signature'')
             (STRIPE_WEBHOOK_SECRET env) = Inl err"
  shows "webhook env req t =
           (\<lparr>status = 400, payload = Send (''Webhook Error: '' @ message err)\<rparr>,
            t @ [Logged LogError ''Webhook signature verification failed:'' (ErrorArg err)])
         \<and> order_calls (snd (webhook env req t)) = order_calls t"
  using assms by (simp add: webhook_def order_calls_append)

theorem webhook_rejects_unverified_witness:
  "webhook sample_env (webhook_request succeeded_event ''forged'') [] =
     (\<lparr>status = 400,
       payload = Send (''Webhook Error: ''
                       @ ''No signatures found matching the expected signature for payload'')\<rparr>,
      [Logged LogError ''Webhook signature verification failed:''
         (ErrorArg (JsError ''No signatures found matching the expected signature for payload''
                      JUndefined))])
   \<and> order_calls (snd (webhook sample_env (webhook_request succeeded_event ''forged'') [])) = []"
  using webhook_rejects_unverified
    [where env = sample_env and t = "[]" and req = "webhook_request succeeded_event ''forged''"
       and err = "JsError ''No signatures found matching the expected signature for payload''
                    JUndefined"]
  by (simp add: sample_env_def webhook_request_def header_value_def)

subsection \<open>PayPal capture\<close>

text \<open>
  C2, amended. Take a capture request of an authenticated caller (\<open>req.user.id\<close> can be
  read) whose vendor capture call, made with the request built from the body's order id,
  returns a result. If the result's status is exactly
  \<open>COMPLETED\<close>, the order-creation collaborator is called exactly once, with
  \<open>{userId: caller's id, paymentId: orderId, paymentMethod: 'paypal', status: 'confirmed'}\<close>;
  the response is \<open>{success: true, captureId}\<close> when that call returns, and status 500
  with the collaborator's message as details when it throws. For any other status the
  collaborator is not called and the response is status 500 (\<open>Payment not completed\<close>).
\<close>

theorem capture_outcomes:
  assumes "js_get (body req) ''orderId'' = Inr orderId"
      and "new_OrdersCaptureRequest env orderId = Inr rq"
      and "paypal_execute env t rq = Inr capture"
      and "js_get capture ''result'' = Inr result"
      and "js_get result ''status'' = Inr st"
      and "js_get result ''id'' = Inr capture_id"
      and "js_get (user req) ''id'' = Inr user_id"
      and "args = JObj [(''userId'', user_id), (''paymentId'', orderId),
                        (''paymentMethod'', JStr ''paypal''), (''status'', JStr ''confirmed'')]"
      and "t1 = t @ [PayPalExecute rq]"
  shows "(st = JStr ''COMPLETED'' \<longrightarrow>
            order_calls (snd (capture_paypal_payment env req t)) = order_calls t @ [args]
            \<and> (createOrder env t1 args = Inr () \<longrightarrow>
                 fst (capture_paypal_payment env req t) =
                   \<lparr>status = 200,
                    payload = Json (JObj [(''success'', JBool True),
                                          (''captureId'', capture_id)])\<rparr>)
            \<and> (\<forall>e. createOrder env t1 args = Inl e \<longrightarrow>
                 fst (capture_paypal_payment env req t) =
                   \<lparr>status = 500,
                    payload = Json (JObj [(''error'',
                      JObj [(''message'', JStr ''Failed to capture PayPal payment''),
                            (''details'', JStr (message e))])])\<rparr>))
         \<and> (st \<noteq> JStr ''COMPLETED'' \<longrightarrow>
            order_calls (snd (capture_paypal_payment env req t)) = order_calls t
            \<and> fst (capture_paypal_payment env req t) =
                 \<lparr>status = 500,
                  payload = Json (JObj [(''error'',
                    JObj [(''message'', JStr ''Failed to capture PayPal payment''),
                          (''details'', JStr ''Payment not completed'')])])\<rparr>)"
proof (cases "st = JStr ''COMPLETED''")
  case True
  then have "capture_paypal_payment_try env req t =
          (case createOrder env t1 args of
             Inl e \<Rightarrow> Inl e
           | Inr u \<Rightarrow> Inr (json_response 200
                      (JObj [(''success'', JBool True), (''captureId'', capture_id)])),
           t1 @ [CreateOrder args])"
    using capture_completed [OF assms(1-4) _ assms(6-9)] assms(5) by simp
  then show ?thesis
    using True
    by (auto simp add: capture_paypal_payment_def order_calls_append json_response_def assms(9)
        split: sum.splits)
next
  case False
  then show ?thesis
    using capture_not_completed [OF assms(1-5)]
    by (simp add: capture_paypal_payment_def order_calls_append json_response_def)
qed

theorem capture_outcomes_witness:
  "order_calls (snd (capture_paypal_payment sample_env capture_request [])) =
     [JObj [(''userId'', JStr ''user-7''), (''paymentId'', JStr ''ORDER-1''),
            (''paymentMethod'', JStr ''paypal''), (''status'', JStr ''confirmed'')]]
   \<and> fst (capture_paypal_payment sample_env capture_request []) =
       \<lparr>status = 200,
        payload = Json (JObj [(''success'', JBool True), (''captureId'', JStr ''CAPTURE-1'')])\<rparr>
   \<and> order_calls (snd (capture_paypal_payment pending_capture_env capture_request [])) = []
   \<and> fst (capture_paypal_payment pending_capture_env capture_request []) =
       \<lparr>status = 500,
        payload = Json (JObj [(''error'',
          JObj [(''message'', JStr ''Failed to capture PayPal payment''),
                (''details'', JStr ''Payment not completed'')])])\<rparr>"
  using capture_outcomes
    [where env = sample_env and req = capture_request and t = "[]"
       and orderId = "JStr ''ORDER-1''" and rq = "OrdersCaptureRequest ''ORDER-1''"
       and capture = "JObj [(''result'', JObj [(''id'', JStr ''CAPTURE-1''),
                                               (''status'', JStr ''COMPLETED'')])]"
       and result = "JObj [(''id'', JStr ''CAPTURE-1''), (''status'', JStr ''COMPLETED'')]"
       and st = "JStr ''COMPLETED''" and capture_id = "JStr ''CAPTURE-1''"
       and user_id = "JStr ''user-7''"
       and args = "JObj [(''userId'', JStr ''user-7''), (''paymentId'', JStr ''ORDER-1''),
                         (''paymentMethod'', JStr ''paypal''), (''status'', JStr ''confirmed'')]"
       and ?t1.0 = "[PayPalExecute (OrdersCaptureRequest ''ORDER-1'')]"]
    capture_outcomes
    [where env = pending_capture_env and req = capture_request and t = "[]"
       and orderId = "JStr ''ORDER-1''" and rq = "OrdersCaptureRequest ''ORDER-1''"
       and capture = "JObj [(''result'', JObj [(''id'', JStr ''CAPTURE-2''),
                                               (''status'', JStr ''PENDING'')])]"
       and result = "JObj [(''id'', JStr ''CAPTURE-2''), (''status'', JStr ''PENDING'')]"
       and st = "JStr ''PENDING''" and capture_id = "JStr ''CAPTURE-2''"
       and user_id = "JStr ''user-7''"
       and args = "JObj [(''userId'', JStr ''user-7''), (''paymentId'', JStr ''ORDER-1''),
                         (''paymentMethod'', JStr ''paypal''), (''status'', JStr ''confirmed'')]"
       and ?t1.0 = "[PayPalExecute (OrdersCaptureRequest ''ORDER-1'')]"]
  by (simp add: sample_env_def pending_capture_env_def capture_request_def
      new_OrdersCaptureRequest_def unreserved_def)

theorem capture_completed_order_refused:
  "(paypal_execute failing_store_env [] (OrdersCaptureRequest ''ORDER-1'') =
      Inr (JObj [(''result'', JObj [(''id'', JStr ''CAPTURE-1''),
                                    (''status'', JStr ''COMPLETED'')])]))
   \<and> capture_paypal_payment failing_store_env capture_request [] =
       (\<lparr>status = 500,
         payload = Json (JObj [(''error'',
           JObj [(''message'', JStr ''Failed to capture PayPal payment''),
                 (''details'', JStr ''Order store unavailable'')])])\<rparr>,
        [PayPalExecute (OrdersCaptureRequest ''ORDER-1''),
         CreateOrder (JObj [(''userId'', JStr ''user-7''), (''paymentId'', JStr ''ORDER-1''),
                            (''paymentMethod'', JStr ''paypal''),
                            (''status'', JStr ''confirmed'')]),
         Logged LogError ''PayPal payment capture error:''
           (ErrorArg (JsError ''Order store unavailable'' JUndefined))])"
  by (simp add: failing_store_env_def sample_env_def capture_request_def
      capture_paypal_payment_def capture_paypal_payment_try_def io_defs json_response_def
      new_OrdersCaptureRequest_def unreserved_def)

subsection \<open>Validation middleware\<close>

text \<open>
  C3, amended. In production mode over an insecure connection the middleware answers 403
  exactly when the declared method is recognised, the field rules report no error and
  the amount is within bounds: the transport check is the last one. An unknown method, a
  field-level violation and an out-of-range amount are each answered with 400 before it.
\<close>

theorem https_check_after_validation:
  assumes "NODE_ENV env = Some ''production''"
      and "\<not> secure req"
      and "js_get (body req) ''method'' = Inr m"
      and "js_get (body req) ''amount'' = Inr amount"
  shows "(answered_status (fst (validatePayment env req t)) = Some 403 \<longleftrightarrow>
            (\<exists>rules. select_rules m = Some rules
               \<and> validation_errors env rules req = Inr []
               \<and> amount_out_of_range env amount = Inr False))
       \<and> (select_rules m = None \<longrightarrow>
            answered_status (fst (validatePayment env req t)) = Some 400)
       \<and> (\<forall>rules errors. select_rules m = Some rules
              \<and> validation_errors env rules req = Inr errors \<and> errors \<noteq> [] \<longrightarrow>
            answered_status (fst (validatePayment env req t)) = Some 400)
       \<and> (\<forall>rules. select_rules m = Some rules
              \<and> validation_errors env rules req = Inr []
              \<and> amount_out_of_range env amount = Inr True \<longrightarrow>
            answered_status (fst (validatePayment env req t)) = Some 400)"
proof (cases "select_rules m")
  case None
  then show ?thesis
    using assms(3) by (simp add: validatePayment_unknown response_statuses)
next
  case (Some rules)
  show ?thesis
    using assms Some
    by (auto simp add: validatePayment_def validate_checks_known response_statuses
        json_response_def split: sum.splits if_splits)
qed

theorem https_check_after_validation_witness:
  "answered_status (fst (validatePayment sample_env insecure_card_request [])) = Some 403"
proof -
  have "validation_errors sample_env stripePaymentRules insecure_card_request = Inr []"
    by (simp add: validation_errors_def stripePaymentRules_def insecure_card_request_def
        card_request_def)
  moreover have "amount_out_of_range sample_env (JNum (Fin 2500)) = Inr False"
    by (simp add: amount_out_of_range_number)
  moreover have "select_rules (JStr ''card'') = Some stripePaymentRules"
    by (simp add: select_rules_def)
  ultimately show ?thesis
    using https_check_after_validation
      [where env = sample_env and req = insecure_card_request and m = "JStr ''card''"
         and amount = "JNum (Fin 2500)" and t = "[]"]
    by (simp add: insecure_card_request_def card_request_def)
qed

theorem insecure_production_request_answered_400:
  "NODE_ENV sample_env = Some ''production''
   \<and> \<not> secure insecure_unknown_method_request
   \<and> fst (validatePayment sample_env insecure_unknown_method_request []) =
       Responded \<lparr>status = 400,
         payload = Json (JObj [(''error'',
                                JObj [(''message'', JStr ''Invalid payment method'')])])\<rparr>
   \<and> \<not> secure insecure_incomplete_request
   \<and> fst (validatePayment sample_env insecure_incomplete_request []) =
       Responded \<lparr>status = 400,
         payload = Json (JObj [(''error'',
           JObj [(''message'', JStr ''Validation error''),
                 (''details'',
                    JArr [JObj [(''msg'', JStr ''Invalid value''),
                                (''param'', JStr ''currency''),
                                (''location'', JStr ''body'')],
                          JObj [(''msg'', JStr ''Invalid currency code''),
                                (''param'', JStr ''currency''),
                                (''location'', JStr ''body'')]])])])\<rparr>"
  by (simp add: validatePayment_def validate_checks_def run_rules_def validation_errors_def
      io_defs select_rules_def paypalPaymentRules_def insecure_unknown_method_request_def
      insecure_incomplete_request_def invalid_method_response_def
      validation_error_response_def json_response_def)

text \<open>
  C4. A request whose body field \<open>method\<close> is none of \<open>card\<close>, \<open>paypal\<close>,
  \<open>google_pay\<close> is answered by the middleware with status 400 and the message
  \<open>Invalid payment method\<close>. Nothing is recorded: no field rule is run, and on each of
  the three routes that mount the middleware the handler is not entered, so no vendor
  call occurs.
\<close>

theorem unknown_method_rejected:
  assumes "protectRoute env req0 = Inr req"
      and "js_get (body req) ''method'' = Inr m"
      and "m \<noteq> JStr ''card''" and "m \<noteq> JStr ''paypal''" and "m \<noteq> JStr ''google_pay''"
      and "answer = \<lparr>status = 400,
                      payload = Json (JObj [(''error'',
                        JObj [(''message'', JStr ''Invalid payment method'')])])\<rparr>"
  shows "validatePayment env req t = (Responded answer, t)
         \<and> route_create_payment_intent env req0 t = (answer, t)
         \<and> route_create_paypal_order env req0 t = (answer, t)
         \<and> route_create_google_pay_payment env req0 t = (answer, t)"
proof -
  have "select_rules m = None"
    using assms(3-5) by (simp add: select_rules_def)
  then have mw: "validatePayment env req t = (Responded invalid_method_response, t)"
    using assms(2) by (simp add: validatePayment_unknown)
  then have "validated env h req t = (invalid_method_response, t)" for h
    by (simp add: validated_def)
  then show ?thesis
    using mw assms(1,6)
    by (simp add: route_create_payment_intent_def route_create_paypal_order_def
        route_create_google_pay_payment_def protected_def invalid_method_response_def
        json_response_def)
qed

theorem unknown_method_rejected_witness:
  "route_create_payment_intent sample_env unknown_method_request [] =
     (\<lparr>status = 400,
       payload = Json (JObj [(''error'',
         JObj [(''message'', JStr ''Invalid payment method'')])])\<rparr>, [])
   \<and> route_create_paypal_order sample_env unknown_method_request [] =
     (\<lparr>status = 400,
       payload = Json (JObj [(''error'',
         JObj [(''message'', JStr ''Invalid payment method'')])])\<rparr>, [])
   \<and> route_create_google_pay_payment sample_env unknown_method_request [] =
     (\<lparr>status = 400,
       payload = Json (JObj [(''error'',
         JObj [(''message'', JStr ''Invalid payment method'')])])\<rparr>, [])"
  using unknown_method_rejected
    [where env = sample_env and ?req0.0 = unknown_method_request
       and req = "unknown_method_request\<lparr>user := JObj [(''id'', JStr ''user-7'')]\<rparr>"
       and m = "JStr ''bitcoin''" and t = "[]"
       and answer = "\<lparr>status = 400,
         payload = Json (JObj [(''error'',
           JObj [(''message'', JStr ''Invalid payment method'')])])\<rparr>"]
  by (simp add: sample_env_def unknown_method_request_def)

text \<open>
  C5. If the amount check \<open>amount <= 0 || amount > 999999\<close> holds of the body's amount,
  the middleware answers with status 400 whatever method was declared (recognised or
  not), and what the route answers and records is what the middleware answered and
  recorded, whatever the handler: control does not pass to it. The rule chains are
  taken to run to completion; a chain that throws is the internal fault the middleware
  answers with 500.
\<close>

theorem out_of_range_amount_rejected:
  assumes "js_get (body req) ''method'' = Inr m"
      and "js_get (body req) ''amount'' = Inr amount"
      and "amount_out_of_range env amount = Inr True"
      and "\<forall>r. \<not> isl (run_rule env r req)"
  shows "answered_status (fst (validatePayment env req t)) = Some 400
         \<and> fst (validatePayment env req t) = Responded (fst (validated env handler req t))
         \<and> snd (validated env handler req t) = snd (validatePayment env req t)"
proof (cases "select_rules m")
  case None
  then have "validatePayment env req t = (Responded invalid_method_response, t)"
    using assms(1) by (simp add: validatePayment_unknown)
  then show ?thesis
    by (simp add: validated_def response_statuses)
next
  case (Some rules)
  from assms(4) obtain errors where errors: "validation_errors env rules req = Inr errors"
    using collect_errors_no_throw [of "map (\<lambda>r. run_rule env r req) rules"]
    by (auto simp add: validation_errors_def)
  have "validatePayment env req t =
          (Responded (if errors \<noteq> [] then validation_error_response errors
                      else invalid_amount_response),
           t @ map RuleRun rules)"
    using assms(1,2,3) Some errors
    by (simp add: validatePayment_def validate_checks_known)
  then show ?thesis
    by (simp add: validated_def response_statuses)
qed

theorem out_of_range_amount_rejected_witness:
  "answered_status (fst (validatePayment sample_env zero_amount_request [])) = Some 400
   \<and> answered_status (fst (validatePayment sample_env excessive_amount_request [])) = Some 400
   \<and> snd (validated sample_env create_payment_intent excessive_amount_request []) =
       snd (validatePayment sample_env excessive_amount_request [])"
proof -
  have no_throw: "\<forall>r. \<not> isl (run_rule sample_env r req)" for req
  proof
    fix r show "\<not> isl (run_rule sample_env r req)" by (cases r) simp
  qed
  have "parse_number ''1000000'' = Fin 1000000"
    by (simp add: parse_number_def)
  then have big: "amount_out_of_range sample_env (JStr ''1000000'') = Inr True"
    by (simp add: amount_out_of_range_def to_number_def)
  have zero: "amount_out_of_range sample_env (JNum (Fin 0)) = Inr True"
    by (simp add: amount_out_of_range_number)
  have zero_method: "js_get (body zero_amount_request) ''method'' = Inr (JStr ''paypal'')"
    and zero_amount: "js_get (body zero_amount_request) ''amount'' = Inr (JNum (Fin 0))"
    by (simp_all add: zero_amount_request_def)
  have big_method: "js_get (body excessive_amount_request) ''method'' = Inr (JStr ''card'')"
    and big_amount: "js_get (body excessive_amount_request) ''amount'' = Inr (JStr ''1000000'')"
    by (simp_all add: excessive_amount_request_def)
  note first = out_of_range_amount_rejected [OF zero_method zero_amount zero no_throw]
  note second = out_of_range_amount_rejected [OF big_method big_amount big no_throw]
  show ?thesis
    using first [of "[]"] second [of "[]" create_payment_intent] by blast
qed

subsection \<open>Webhook: dispatch\<close>

text \<open>
  C6. Take a webhook event that passed signature verification. If its type is
  \<open>payment_intent.succeeded\<close> (and the intent carries a metadata object), the
  order-creation collaborator is called exactly once, with
  \<open>{userId: metadata.userId, paymentId: intent id, paymentMethod: 'card', status: 'confirmed'}\<close>;
  the answer is \<open>{received: true}\<close> when that call returns and status 500 with the
  generic message \<open>Webhook processing failed\<close> when it throws. If its type is
  \<open>payment_intent.payment_failed\<close>, the collaborator is not called and every effect
  recorded is a log entry: the failure handler logs \<open>Payment failed:\<close> with the intent's
  id and last payment error, and the answer is \<open>{received: true}\<close>. Any other type is
  logged (\<open>Unhandled event type ...\<close>) and acknowledged. An exception raised during the
  dispatch (here: an intent whose properties cannot be read) is logged by the handler
  that caught it and by the route, and answered with the generic 500; in general the
  answer is that 500 when the dispatch threw and \<open>{received: true}\<close> otherwise.
\<close>

theorem webhook_dispatch:
  assumes verified: "constructEvent env t (body req) (header_value req ''stripe-signature'')
             (STRIPE_WEBHOOK_SECRET env) = Inr ev"
      and type: "js_get ev ''type'' = Inr ty"
      and args: "args = JObj [(''userId'', user_id), (''paymentId'', intent_id),
                              (''paymentMethod'', JStr ''card''),
                              (''status'', JStr ''confirmed'')]"
      and received: "received = \<lparr>status = 200,
                                  payload = Json (JObj [(''received'', JBool True)])\<rparr>"
      and failed: "failed = \<lparr>status = 500,
                    payload = Json (JObj [(''error'', JStr ''Webhook processing failed'')])\<rparr>"
  shows "(ty = JStr ''payment_intent.succeeded'' \<and> js_get ev ''data'' = Inr d
            \<and> js_get d ''object'' = Inr intent \<and> js_get intent ''metadata'' = Inr md
            \<and> js_get md ''userId'' = Inr user_id \<and> js_get intent ''id'' = Inr intent_id \<longrightarrow>
          order_calls (snd (webhook env req t)) = order_calls t @ [args]
          \<and> (createOrder env t args = Inr () \<longrightarrow>
                webhook env req t = (received, t @ [CreateOrder args]))
          \<and> (\<forall>e. createOrder env t args = Inl e \<longrightarrow>
                webhook env req t =
                  (failed,
                   t @ [CreateOrder args,
                        Logged LogError ''Error handling successful payment:'' (ErrorArg e),
                        Logged LogError ''Webhook processing error:'' (ErrorArg e)])))
       \<and> (ty = JStr ''payment_intent.succeeded'' \<and> js_get ev ''data'' = Inr d
            \<and> js_get d ''object'' = Inr intent \<and> js_get intent ''metadata'' = Inl te \<longrightarrow>
          webhook env req t =
            (failed,
             t @ [Logged LogError ''Error handling successful payment:''
                    (ErrorArg (thrown env te)),
                  Logged LogError ''Webhook processing error:'' (ErrorArg (thrown env te))]))
       \<and> (ty = JStr ''payment_intent.payment_failed'' \<longrightarrow>
            order_calls (snd (webhook env req t)) = order_calls t
            \<and> filter (\<lambda>e. \<not> is_log e) (snd (webhook env req t)) = filter (\<lambda>e. \<not> is_log e) t)
       \<and> (ty = JStr ''payment_intent.payment_failed'' \<and> js_get ev ''data'' = Inr d
            \<and> js_get d ''object'' = Inr intent \<and> js_get intent ''id'' = Inr failed_id
            \<and> js_get intent ''last_payment_error'' = Inr last_error \<longrightarrow>
          webhook env req t =
            (received,
             t @ [Logged LogError ''Payment failed:''
                    (ValueArg (JObj [(''paymentIntentId'', failed_id),
                                     (''error'', last_error)]))]))
       \<and> (ty = JStr ''payment_intent.payment_failed'' \<and> js_get ev ''data'' = Inr d
            \<and> js_get d ''object'' = Inr intent \<and> js_get intent ''id'' = Inl te \<longrightarrow>
          webhook env req t =
            (failed,
             t @ [Logged LogError ''Error handling failed payment:''
                    (ErrorArg (thrown env te)),
                  Logged LogError ''Webhook processing error:'' (ErrorArg (thrown env te))]))
       \<and> (ty \<noteq> JStr ''payment_intent.succeeded'' \<and> ty \<noteq> JStr ''payment_intent.payment_failed''
            \<and> to_string (number_to_string env) ty = Inr s \<longrightarrow>
            webhook env req t =
              (received, t @ [Logged LogInfo (''Unhandled event type '' @ s) NoArg]))
       \<and> fst (webhook env req t) = (if isl (fst (dispatch env ev t)) then failed else received)"
proof -
  note w = webhook_verified [OF verified]
  note responses = received failed received_response_def processing_failed_response_def
    json_response_def
  have succeeded:
    "order_calls (snd (webhook env req t)) = order_calls t @ [args]
     \<and> (createOrder env t args = Inr () \<longrightarrow>
           webhook env req t = (received, t @ [CreateOrder args]))
     \<and> (\<forall>e. createOrder env t args = Inl e \<longrightarrow>
           webhook env req t =
             (failed,
              t @ [CreateOrder args,
                   Logged LogError ''Error handling successful payment:'' (ErrorArg e),
                   Logged LogError ''Webhook processing error:'' (ErrorArg e)]))"
    if "ty = JStr ''payment_intent.succeeded''" "js_get ev ''data'' = Inr d"
      "js_get d ''object'' = Inr intent" "js_get intent ''metadata'' = Inr md"
      "js_get md ''userId'' = Inr user_id" "js_get intent ''id'' = Inr intent_id"
  proof -
    have "js_get ev ''type'' = Inr (JStr ''payment_intent.succeeded'')"
      using type that(1) by simp
    from dispatch_succeeded [OF this that(2-6) args, of env t]
    show ?thesis
      by (cases "createOrder env t args") (simp_all add: w order_calls_append responses)
  qed
  have succeeded_unreadable:
    "webhook env req t =
       (failed,
        t @ [Logged LogError ''Error handling successful payment:'' (ErrorArg (thrown env te)),
             Logged LogError ''Webhook processing error:'' (ErrorArg (thrown env te))])"
    if "ty = JStr ''payment_intent.succeeded''" "js_get ev ''data'' = Inr d"
      "js_get d ''object'' = Inr intent" "js_get intent ''metadata'' = Inl te"
  proof -
    have "js_get ev ''type'' = Inr (JStr ''payment_intent.succeeded'')"
      using type that(1) by simp
    from dispatch_succeeded_unreadable [OF this that(2-4), of env t]
    show ?thesis by (simp add: w responses)
  qed
  have only_logs:
    "order_calls (snd (webhook env req t)) = order_calls t
     \<and> filter (\<lambda>e. \<not> is_log e) (snd (webhook env req t)) = filter (\<lambda>e. \<not> is_log e) t"
    if "ty = JStr ''payment_intent.payment_failed''"
  proof -
    have "filter (\<lambda>e. \<not> is_log e) (snd (webhook env req t)) = filter (\<lambda>e. \<not> is_log e) t"
      using dispatch_failed_only_logs [of ev env t] type that
      by (cases "dispatch env ev t") (auto simp add: w split: sum.splits)
    then show ?thesis
      using order_calls_same_effects by blast
  qed
  have failure_logged:
    "webhook env req t =
       (received,
        t @ [Logged LogError ''Payment failed:''
               (ValueArg (JObj [(''paymentIntentId'', failed_id), (''error'', last_error)]))])"
    if "ty = JStr ''payment_intent.payment_failed''" "js_get ev ''data'' = Inr d"
      "js_get d ''object'' = Inr intent" "js_get intent ''id'' = Inr failed_id"
      "js_get intent ''last_payment_error'' = Inr last_error"
  proof -
    have "js_get ev ''type'' = Inr (JStr ''payment_intent.payment_failed'')"
      using type that(1) by simp
    from dispatch_failed [OF this that(2-5), of env t]
    show ?thesis by (simp add: w responses)
  qed
  have failure_unreadable:
    "webhook env req t =
       (failed,
        t @ [Logged LogError ''Error handling failed payment:'' (ErrorArg (thrown env te)),
             Logged LogError ''Webhook processing error:'' (ErrorArg (thrown env te))])"
    if "ty = JStr ''payment_intent.payment_failed''" "js_get ev ''data'' = Inr d"
      "js_get d ''object'' = Inr intent" "js_get intent ''id'' = Inl te"
  proof -
    have "js_get ev ''type'' = Inr (JStr ''payment_intent.payment_failed'')"
      using type that(1) by simp
    from dispatch_failed_unreadable [OF this that(2-4), of env t]
    show ?thesis by (simp add: w responses)
  qed
  have other:
    "webhook env req t = (received, t @ [Logged LogInfo (''Unhandled event type '' @ s) NoArg])"
    if "ty \<noteq> JStr ''payment_intent.succeeded''" "ty \<noteq> JStr ''payment_intent.payment_failed''"
      "to_string (number_to_string env) ty = Inr s"
    using dispatch_other [OF type that, of t] by (simp add: w responses)
  have answer: "fst (webhook env req t) = (if isl (fst (dispatch env ev t)) then failed else received)"
    by (simp add: w responses split: prod.splits sum.splits)
  have c1: "ty = JStr ''payment_intent.succeeded'' \<and> js_get ev ''data'' = Inr d
            \<and> js_get d ''object'' = Inr intent \<and> js_get intent ''metadata'' = Inr md
            \<and> js_get md ''userId'' = Inr user_id \<and> js_get intent ''id'' = Inr intent_id \<longrightarrow>
          order_calls (snd (webhook env req t)) = order_calls t @ [args]
          \<and> (createOrder env t args = Inr () \<longrightarrow>
                webhook env req t = (received, t @ [CreateOrder args]))
          \<and> (\<forall>e. createOrder env t args = Inl e \<longrightarrow>
                webhook env req t =
                  (failed,
                   t @ [CreateOrder args,
                        Logged LogError ''Error handling successful payment:'' (ErrorArg e),
                        Logged LogError ''Webhook processing error:'' (ErrorArg e)]))"
    using succeeded by (intro impI) (elim conjE)
  have c2: "ty = JStr ''payment_intent.succeeded'' \<and> js_get ev ''data'' = Inr d
            \<and> js_get d ''object'' = Inr intent \<and> js_get intent ''metadata'' = Inl te \<longrightarrow>
          webhook env req t =
            (failed,
             t @ [Logged LogError ''Error handling successful payment:''
                    (ErrorArg (thrown env te)),
                  Logged LogError ''Webhook processing error:'' (ErrorArg (thrown env te))])"
    using succeeded_unreadable by (intro impI) (elim conjE)
  have c3: "ty = JStr ''payment_intent.payment_failed'' \<longrightarrow>
            order_calls (snd (webhook env req t)) = order_calls t
            \<and> filter (\<lambda>e. \<not> is_log e) (snd (webhook env req t)) = filter (\<lambda>e. \<not> is_log e) t"
    using only_logs by (intro impI)
  have c4: "ty = JStr ''payment_intent.payment_failed'' \<and> js_get ev ''data'' = Inr d
            \<and> js_get d ''object'' = Inr intent \<and> js_get intent ''id'' = Inr failed_id
            \<and> js_get intent ''last_payment_error'' = Inr last_error \<longrightarrow>
          webhook env req t =
            (received,
             t @ [Logged LogError ''Payment failed:''
                    (ValueArg (JObj [(''paymentIntentId'', failed_id),
                                     (''error'', last_error)]))])"
    using failure_logged by (intro impI) (elim conjE)
  have c5: "ty = JStr ''payment_intent.payment_failed'' \<and> js_get ev ''data'' = Inr d
            \<and> js_get d ''object'' = Inr intent \<and> js_get intent ''id'' = Inl te \<longrightarrow>
          webhook env req t =
            (failed,
             t @ [Logged LogError ''Error handling failed payment:''
                    (ErrorArg (thrown env te)),
                  Logged LogError ''Webhook processing error:'' (ErrorArg (thrown env te))])"
    using failure_unreadable by (intro impI) (elim conjE)
  have c6: "ty \<noteq> JStr ''payment_intent.succeeded'' \<and> ty \<noteq> JStr ''payment_intent.payment_failed''
            \<and> to_string (number_to_string env) ty = Inr s \<longrightarrow>
            webhook env req t =
              (received, t @ [Logged LogInfo (''Unhandled event type '' @ s) NoArg])"
    using other by (intro impI) (elim conjE)
  from c1 c2 c3 c4 c5 c6 answer show ?thesis
    by (intro conjI)
qed

theorem webhook_dispatch_witness:
  "webhook sample_env (webhook_request succeeded_event ''good'') [] =
     (\<lparr>status = 200, payload = Json (JObj [(''received'', JBool True)])\<rparr>,
      [CreateOrder (JObj [(''userId'', JStr ''user-7''), (''paymentId'', JStr ''pi_1''),
                          (''paymentMethod'', JStr ''card''), (''status'', JStr ''confirmed'')])])
   \<and> webhook failing_store_env (webhook_request succeeded_event ''good'') [] =
     (\<lparr>status = 500, payload = Json (JObj [(''error'', JStr ''Webhook processing failed'')])\<rparr>,
      [CreateOrder (JObj [(''userId'', JStr ''user-7''), (''paymentId'', JStr ''pi_1''),
                          (''paymentMethod'', JStr ''card''), (''status'', JStr ''confirmed'')]),
       Logged LogError ''Error handling successful payment:''
         (ErrorArg (JsError ''Order store unavailable'' JUndefined)),
       Logged LogError ''Webhook processing error:''
         (ErrorArg (JsError ''Order store unavailable'' JUndefined))])
   \<and> webhook sample_env (webhook_request failed_event ''good'') [] =
     (\<lparr>status = 200, payload = Json (JObj [(''received'', JBool True)])\<rparr>,
      [Logged LogError ''Payment failed:''
         (ValueArg (JObj [(''paymentIntentId'', JStr ''pi_2''),
                          (''error'', JObj [(''code'', JStr ''card_declined'')])]))])
   \<and> webhook sample_env (webhook_request refunded_event ''good'') [] =
     (\<lparr>status = 200, payload = Json (JObj [(''received'', JBool True)])\<rparr>,
      [Logged LogInfo ''Unhandled event type charge.refunded'' NoArg])"
proof -
  have verified:
    "constructEvent sample_env [] (body (webhook_request ev ''good''))
       (header_value (webhook_request ev ''good'') ''stripe-signature'')
       (STRIPE_WEBHOOK_SECRET sample_env) = Inr ev"
    "constructEvent failing_store_env [] (body (webhook_request ev ''good''))
       (header_value (webhook_request ev ''good'') ''stripe-signature'')
       (STRIPE_WEBHOOK_SECRET failing_store_env) = Inr ev" for ev
    by (simp_all add: sample_env_def failing_store_env_def webhook_request_def header_value_def)
  have succeeded_type: "js_get succeeded_event ''type'' = Inr (JStr ''payment_intent.succeeded'')"
    and failed_type: "js_get failed_event ''type'' = Inr (JStr ''payment_intent.payment_failed'')"
    and refunded_type: "js_get refunded_event ''type'' = Inr (JStr ''charge.refunded'')"
    by (simp_all add: succeeded_event_def failed_event_def refunded_event_def)
  note ok = webhook_dispatch [OF verified(1) succeeded_type refl refl refl,
      where d = "JObj [(''object'', JObj [(''id'', JStr ''pi_1''),
                         (''metadata'', JObj [(''userId'', JStr ''user-7'')])])]"
        and intent = "JObj [(''id'', JStr ''pi_1''),
                            (''metadata'', JObj [(''userId'', JStr ''user-7'')])]"
        and md = "JObj [(''userId'', JStr ''user-7'')]"
        and user_id = "JStr ''user-7''" and intent_id = "JStr ''pi_1''"]
  note refused = webhook_dispatch [OF verified(2) succeeded_type refl refl refl,
      where d = "JObj [(''object'', JObj [(''id'', JStr ''pi_1''),
                         (''metadata'', JObj [(''userId'', JStr ''user-7'')])])]"
        and intent = "JObj [(''id'', JStr ''pi_1''),
                            (''metadata'', JObj [(''userId'', JStr ''user-7'')])]"
        and md = "JObj [(''userId'', JStr ''user-7'')]"
        and user_id = "JStr ''user-7''" and intent_id = "JStr ''pi_1''"]
  note declined = webhook_dispatch [OF verified(1) failed_type refl refl refl,
      where d = "JObj [(''object'',
                   JObj [(''id'', JStr ''pi_2''),
                         (''last_payment_error'', JObj [(''code'', JStr ''card_declined'')]),
                         (''metadata'', JObj [(''userId'', JStr ''user-7'')])])]"
        and intent = "JObj [(''id'', JStr ''pi_2''),
                         (''last_payment_error'', JObj [(''code'', JStr ''card_declined'')]),
                         (''metadata'', JObj [(''userId'', JStr ''user-7'')])]"
        and failed_id = "JStr ''pi_2''"
        and last_error = "JObj [(''code'', JStr ''card_declined'')]"]
  note other = webhook_dispatch [OF verified(1) refunded_type refl refl refl,
      where s = "''charge.refunded''"]
  have stores: "createOrder sample_env [] a = Inr ()"
    "createOrder failing_store_env [] a = Inl (JsError ''Order store unavailable'' JUndefined)"
    for a
    by (simp_all add: sample_env_def failing_store_env_def)
  show ?thesis
    using ok refused declined other stores
    by (simp add: succeeded_event_def failed_event_def)
qed

subsection \<open>Stripe payment intent\<close>

text \<open>
  C7. For a request with a body, the handler makes exactly one vendor call. When the
  vendor returns the created payment intent (a valid card request), the response is
  \<open>{clientSecret, paymentIntentId}\<close> read from that intent. When the vendor call throws
  (a rejection), the response is status 500 whose error body carries the thrown error's
  message and code unchanged; the call is not repeated.
\<close>

theorem create_payment_intent_outcomes:
  assumes "js_get (body req) ''amount'' = Inr amount"
      and "js_get (body req) ''currency'' = Inr currency"
      and "js_get (body req) ''paymentMethodId'' = Inr paymentMethodId"
      and "params = JObj [(''amount'', amount), (''currency'', currency),
                          (''payment_method'', paymentMethodId), (''confirm'', JBool True),
                          (''return_url'',
                             JStr (env_string (FRONTEND_URL env) @ ''/payment/confirm''))]"
  shows "(paymentIntents_create env t params = Inr intent
            \<and> js_get intent ''client_secret'' = Inr client_secret
            \<and> js_get intent ''id'' = Inr intent_id \<longrightarrow>
          create_payment_intent env req t =
            (\<lparr>status = 200,
              payload = Json (JObj [(''clientSecret'', client_secret),
                                    (''paymentIntentId'', intent_id)])\<rparr>,
             t @ [PaymentIntentsCreate params]))
       \<and> (paymentIntents_create env t params = Inl e \<longrightarrow>
          create_payment_intent env req t =
            (\<lparr>status = 500,
              payload = Json (JObj [(''error'', JObj [(''message'', JStr (message e)),
                                                       (''code'', code e)])])\<rparr>,
             t @ [PaymentIntentsCreate params,
                  Logged LogError ''Stripe payment intent error:'' (ErrorArg e)]))"
  using assms
  by (simp add: create_payment_intent_def create_payment_intent_try_def io_defs
      json_response_def)

theorem create_payment_intent_outcomes_witness:
  "fst (create_payment_intent sample_env card_request []) =
     \<lparr>status = 200,
      payload = Json (JObj [(''clientSecret'', JStr ''pi_1_secret''),
                            (''paymentIntentId'', JStr ''pi_1'')])\<rparr>
   \<and> create_payment_intent declining_env card_request [] =
     (\<lparr>status = 500,
       payload = Json (JObj [(''error'', JObj [(''message'', JStr ''Your card was declined.''),
                                                (''code'', JStr ''card_declined'')])])\<rparr>,
      [PaymentIntentsCreate
         (JObj [(''amount'', JNum (Fin 2500)), (''currency'', JStr ''usd''),
                (''payment_method'', JStr ''pm_card_visa''), (''confirm'', JBool True),
                (''return_url'', JStr ''https://shop.example/payment/confirm'')]),
       Logged LogError ''Stripe payment intent error:''
         (ErrorArg (JsError ''Your card was declined.'' (JStr ''card_declined'')))])"
  using create_payment_intent_outcomes
    [where env = sample_env and req = card_request and t = "[]"
       and amount = "JNum (Fin 2500)" and currency = "JStr ''usd''"
       and paymentMethodId = "JStr ''pm_card_visa''"
       and params = "JObj [(''amount'', JNum (Fin 2500)), (''currency'', JStr ''usd''),
                (''payment_method'', JStr ''pm_card_visa''), (''confirm'', JBool True),
                (''return_url'', JStr ''https://shop.example/payment/confirm'')]"
       and intent = "JObj [(''id'', JStr ''pi_1''), (''client_secret'', JStr ''pi_1_secret'')]"
       and client_secret = "JStr ''pi_1_secret''" and intent_id = "JStr ''pi_1''"]
    create_payment_intent_outcomes
    [where env = declining_env and req = card_request and t = "[]"
       and amount = "JNum (Fin 2500)" and currency = "JStr ''usd''"
       and paymentMethodId = "JStr ''pm_card_visa''"
       and params = "JObj [(''amount'', JNum (Fin 2500)), (''currency'', JStr ''usd''),
                (''payment_method'', JStr ''pm_card_visa''), (''confirm'', JBool True),
                (''return_url'', JStr ''https://shop.example/payment/confirm'')]"
       and e = "JsError ''Your card was declined.'' (JStr ''card_declined'')"]
  by (simp add: sample_env_def declining_env_def card_request_def env_string_def)

subsection \<open>PayPal order creation\<close>

text \<open>
  C8. For a request with \<open>{amount, currency}\<close> the handler sends one vendor create-order
  request: it prefers \<open>return=representation\<close>, its intent is \<open>CAPTURE\<close> and it has a
  single purchase unit whose value is \<open>amount.toString()\<close>, for a number the engine's
  string form of it. When the vendor returns the order, the response is \<open>{orderId}\<close>
  alone; when the vendor call throws, the response is status 500 with the fixed message
  \<open>Failed to create PayPal order\<close> and the error's message as details.
\<close>

theorem create_paypal_order_outcomes:
  assumes "js_get (body req) ''amount'' = Inr amount"
      and "js_get (body req) ''currency'' = Inr currency"
      and "call_toString (number_to_string env) amount = Inr amount_string"
      and "rq = OrdersCreateRequest ''return=representation''
                  (JObj [(''intent'', JStr ''CAPTURE''),
                         (''purchase_units'',
                            JArr [JObj [(''amount'',
                                         JObj [(''currency_code'', currency),
                                               (''value'', JStr amount_string)])]])])"
  shows "(\<forall>n. amount = JNum n \<longrightarrow> amount_string = number_to_string env n)
       \<and> (paypal_execute env t rq = Inr order \<and> js_get order ''result'' = Inr result
            \<and> js_get result ''id'' = Inr order_id \<longrightarrow>
          create_paypal_order env req t =
            (\<lparr>status = 200, payload = Json (JObj [(''orderId'', order_id)])\<rparr>,
             t @ [PayPalExecute rq]))
       \<and> (paypal_execute env t rq = Inl e \<longrightarrow>
          create_paypal_order env req t =
            (\<lparr>status = 500,
              payload = Json (JObj [(''error'',
                JObj [(''message'', JStr ''Failed to create PayPal order''),
                      (''details'', JStr (message e))])])\<rparr>,
             t @ [PayPalExecute rq,
                  Logged LogError ''PayPal order creation error:'' (ErrorArg e)]))"
proof -
  have "amount_string = number_to_string env n" if "amount = JNum n" for n
    using assms(3) that by (simp add: call_toString_def)
  then show ?thesis
    using assms
    by (simp add: create_paypal_order_def create_paypal_order_try_def io_defs
        json_response_def)
qed

theorem create_paypal_order_outcomes_witness:
  "create_paypal_order sample_env paypal_order_request [] =
     (\<lparr>status = 200, payload = Json (JObj [(''orderId'', JStr ''ORDER-1'')])\<rparr>,
      [PayPalExecute (OrdersCreateRequest ''return=representation''
         (JObj [(''intent'', JStr ''CAPTURE''),
                (''purchase_units'',
                   JArr [JObj [(''amount'',
                                JObj [(''currency_code'', JStr ''EUR''),
                                      (''value'', JStr ''25'')])]])]))])
   \<and> fst (create_paypal_order paypal_down_env paypal_order_request []) =
     \<lparr>status = 500,
      payload = Json (JObj [(''error'',
        JObj [(''message'', JStr ''Failed to create PayPal order''),
              (''details'', JStr ''Service Unavailable'')])])\<rparr>"
proof -
  have rendered: "render_number (Fin 25) = ''25''"
    by (simp add: render_number_def digits.simps)
  show ?thesis
    using create_paypal_order_outcomes
      [where env = sample_env and req = paypal_order_request and t = "[]"
         and amount = "JNum (Fin 25)" and currency = "JStr ''EUR''" and amount_string = "''25''"
         and rq = "OrdersCreateRequest ''return=representation''
           (JObj [(''intent'', JStr ''CAPTURE''),
                  (''purchase_units'',
                     JArr [JObj [(''amount'',
                                  JObj [(''currency_code'', JStr ''EUR''),
                                        (''value'', JStr ''25'')])]])])"
         and order = "JObj [(''result'', JObj [(''id'', JStr ''ORDER-1''),
                                               (''status'', JStr ''CREATED'')])]"
         and result = "JObj [(''id'', JStr ''ORDER-1''), (''status'', JStr ''CREATED'')]"
         and order_id = "JStr ''ORDER-1''"]
      create_paypal_order_outcomes
      [where env = paypal_down_env and req = paypal_order_request and t = "[]"
         and amount = "JNum (Fin 25)" and currency = "JStr ''EUR''" and amount_string = "''25''"
         and rq = "OrdersCreateRequest ''return=representation''
           (JObj [(''intent'', JStr ''CAPTURE''),
                  (''purchase_units'',
                     JArr [JObj [(''amount'',
                                  JObj [(''currency_code'', JStr ''EUR''),
                                        (''value'', JStr ''25'')])]])])"
         and e = "JsError ''Service Unavailable'' JUndefined"]
      rendered
    by (simp add: sample_env_def paypal_down_env_def paypal_order_request_def call_toString_def)
qed

subsection \<open>Webhook: redelivery\<close>

text \<open>
  C9. The handler keeps nothing between invocations: when the same valid
  \<open>payment_intent.succeeded\<close> event is delivered twice (both deliveries pass
  verification), each delivery calls the order-creation collaborator exactly once, two
  calls in total with identical arguments, whatever the collaborator answers.
\<close>

theorem webhook_replay_creates_two_orders:
  assumes "constructEvent env t (body req) (header_value req ''stripe-signature'')
             (STRIPE_WEBHOOK_SECRET env) = Inr ev"
      and "constructEvent env (snd (webhook env req t)) (body req)
             (header_value req ''stripe-signature'') (STRIPE_WEBHOOK_SECRET env) = Inr ev"
      and "js_get ev ''type'' = Inr (JStr ''payment_intent.succeeded'')"
      and "js_get ev ''data'' = Inr d"
      and "js_get d ''object'' = Inr intent"
      and "js_get intent ''metadata'' = Inr md"
      and "js_get md ''userId'' = Inr user_id"
      and "js_get intent ''id'' = Inr intent_id"
      and "args = JObj [(''userId'', user_id), (''paymentId'', intent_id),
                        (''paymentMethod'', JStr ''card''), (''status'', JStr ''confirmed'')]"
  shows "order_calls (snd (webhook env req t)) = order_calls t @ [args]
       \<and> order_calls (snd (webhook env req (snd (webhook env req t)))) =
           order_calls t @ [args, args]"
  using webhook_succeeded_order_calls [OF assms(1) assms(3-9)]
    webhook_succeeded_order_calls [OF assms(2) assms(3-9)]
  by simp

theorem webhook_replay_creates_two_orders_witness:
  "order_calls
     (snd (webhook sample_env (webhook_request succeeded_event ''good'')
        (snd (webhook sample_env (webhook_request succeeded_event ''good'') [])))) =
     [JObj [(''userId'', JStr ''user-7''), (''paymentId'', JStr ''pi_1''),
            (''paymentMethod'', JStr ''card''), (''status'', JStr ''confirmed'')],
      JObj [(''userId'', JStr ''user-7''), (''paymentId'', JStr ''pi_1''),
            (''paymentMethod'', JStr ''card''), (''status'', JStr ''confirmed'')]]
   \<and> fst (webhook sample_env (webhook_request succeeded_event ''good'')
        (snd (webhook sample_env (webhook_request succeeded_event ''good'') []))) =
       \<lparr>status = 500, payload = Json (JObj [(''error'', JStr ''Webhook processing failed'')])\<rparr>"
proof -
  have verified:
    "constructEvent sample_env u (body (webhook_request succeeded_event ''good''))
       (header_value (webhook_request succeeded_event ''good'') ''stripe-signature'')
       (STRIPE_WEBHOOK_SECRET sample_env) = Inr succeeded_event" for u
    by (simp add: sample_env_def webhook_request_def header_value_def)
  have calls: "order_calls
     (snd (webhook sample_env (webhook_request succeeded_event ''good'')
        (snd (webhook sample_env (webhook_request succeeded_event ''good'') [])))) =
     [JObj [(''userId'', JStr ''user-7''), (''paymentId'', JStr ''pi_1''),
            (''paymentMethod'', JStr ''card''), (''status'', JStr ''confirmed'')],
      JObj [(''userId'', JStr ''user-7''), (''paymentId'', JStr ''pi_1''),
            (''paymentMethod'', JStr ''card''), (''status'', JStr ''confirmed'')]]"
    using webhook_replay_creates_two_orders [OF verified verified,
      where d = "JObj [(''object'', JObj [(''id'', JStr ''pi_1''),
                         (''metadata'', JObj [(''userId'', JStr ''user-7'')])])]"
        and intent = "JObj [(''id'', JStr ''pi_1''),
                            (''metadata'', JObj [(''userId'', JStr ''user-7'')])]"
        and md = "JObj [(''userId'', JStr ''user-7'')]"
        and user_id = "JStr ''user-7''" and intent_id = "JStr ''pi_1''"
        and t = "[]"]
    by (simp add: succeeded_event_def)
  have "fst (webhook sample_env (webhook_request succeeded_event ''good'')
        (snd (webhook sample_env (webhook_request succeeded_event ''good'') []))) =
       \<lparr>status = 500, payload = Json (JObj [(''error'', JStr ''Webhook processing failed'')])\<rparr>"
    by (simp add: webhook_def dispatch_def handleSuccessfulPayment_def io_defs
        succeeded_event_def sample_env_def webhook_request_def header_value_def
        received_response_def processing_failed_response_def json_response_def)
  with calls show ?thesis by simp
qed

subsection \<open>The capture route mounts no validation\<close>




end
